theory Spec2Isabelle
  imports Complex_Main "HOL-Library.AList"
begin

section \<open>Python values and strings\<close>

text \<open>
  The platform is a Python program (\<^verbatim>\<open>src/main.py\<close>) whose tables are JSON dictionaries
  and whose contracts are dataclass instances. Scores are Python floats; they are modelled
  as \<^typ>\<open>real\<close> (every score of the program is a small rational number). Strings are
  \<^typ>\<open>string\<close>; a character beyond ASCII is its UTF-8 byte sequence.
  A dictionary entry that may be absent (read with \<^verbatim>\<open>.get\<close> in the source) is an
  \<^typ>\<open>'a option\<close> field, \<^term>\<open>None\<close> meaning that the key is absent.
\<close>

datatype py_value = PNone | PBool bool | PInt int | PFloat real | PStr string

datatype py_error = TypeError | OverflowError | ValueError | OSError

text \<open>Python truthiness, as used by \<^verbatim>\<open>if x\<close> and \<^verbatim>\<open>not x\<close>.\<close>

fun truthy :: "py_value \<Rightarrow> bool" where
  "truthy PNone = False"
| "truthy (PBool b) = b"
| "truthy (PInt i) = (i \<noteq> 0)"
| "truthy (PFloat r) = (r \<noteq> 0)"
| "truthy (PStr s) = (s \<noteq> [])"

text \<open>
  \<^verbatim>\<open>x / 1000\<close>: true division of a number; a string or \<^verbatim>\<open>None\<close> raises TypeError.
  A bool is an int in Python. The quotient of an int is a float: Python raises
  OverflowError when the quotient, rounded to the nearest float, is beyond the largest
  float, that is when its absolute value is \<open>2 ^ 1024 - 2 ^ 970\<close> or more. Below that bound
  the quotient is kept as the real number it is.
\<close>

definition float_overflows :: "real \<Rightarrow> bool" where
  "float_overflows q = (2 ^ 1024 - 2 ^ 970 \<le> \<bar>q\<bar>)"

fun true_div_1000 :: "py_value \<Rightarrow> py_error + real" where
  "true_div_1000 PNone = Inl TypeError"
| "true_div_1000 (PBool b) = Inr ((if b then 1 else 0) / 1000)"
| "true_div_1000 (PInt i) =
     (if float_overflows (real_of_int i / 1000) then Inl OverflowError
      else Inr (real_of_int i / 1000))"
| "true_div_1000 (PFloat r) = Inr (r / 1000)"
| "true_div_1000 (PStr s) = Inl TypeError"

text \<open>\<^verbatim>\<open>needle in haystack\<close> on strings: a contiguous occurrence.\<close>

fun starts_with :: "string \<Rightarrow> string \<Rightarrow> bool" where
  "starts_with [] s = True"
| "starts_with (p # ps) [] = False"
| "starts_with (p # ps) (c # cs) = (p = c \<and> starts_with ps cs)"

fun py_in :: "string \<Rightarrow> string \<Rightarrow> bool" where
  "py_in needle [] = (needle = [])"
| "py_in needle (c # cs) = (starts_with needle (c # cs) \<or> py_in needle cs)"

text \<open>
  \<^verbatim>\<open>s.split(sep)\<close> for a non-empty separator: the scan goes from left to right, an
  occurrence of the separator closes the current piece and its characters are skipped.
  \<open>skip\<close> counts the characters of a separator still to be passed over, \<open>cur\<close> is the
  current piece, reversed.
\<close>

fun split_scan :: "string \<Rightarrow> nat \<Rightarrow> string \<Rightarrow> string \<Rightarrow> string list" where
  "split_scan sep skip cur [] = [rev cur]"
| "split_scan sep skip cur (c # cs) =
     (if 0 < skip then split_scan sep (skip - 1) cur cs
      else if starts_with sep (c # cs) then
        rev cur # split_scan sep (length sep - 1) [] cs
      else split_scan sep 0 (c # cur) cs)"

definition py_split :: "string \<Rightarrow> string \<Rightarrow> string list" where
  "py_split s sep = split_scan sep 0 [] s"

text \<open>\<^verbatim>\<open>s.lower()\<close> on the ASCII letters; other characters are left as they are.\<close>

definition lower_char :: "char \<Rightarrow> char" where
  "lower_char c =
     (case map_of (zip ''ABCDEFGHIJKLMNOPQRSTUVWXYZ'' ''abcdefghijklmnopqrstuvwxyz'') c of
        Some l \<Rightarrow> l
      | None \<Rightarrow> c)"

definition py_lower :: "string \<Rightarrow> string" where
  "py_lower s = map lower_char s"

text \<open>\<^verbatim>\<open>str(n)\<close> for a length, in f-strings.\<close>

definition digit_char :: "nat \<Rightarrow> char" where
  "digit_char d = ''0123456789'' ! d"

fun str_nat :: "nat \<Rightarrow> string" where
  "str_nat n =
     (if n < 10 then [digit_char n]
      else str_nat (n div 10) @ [digit_char (n mod 10)])"

declare str_nat.simps [simp del]

text \<open>
  \<^verbatim>\<open>repr\<close> of a string, as \<^verbatim>\<open>str\<close> of a list or dictionary prints its strings:
  single quotes unless the string has a single quote and no double quote; backslash, the
  chosen quote, newline, carriage return and tab are escaped, another ASCII control
  character is printed as \<^verbatim>\<open>\xhh\<close>. Bytes from 128 on are printed as they are.
\<close>

definition hex_char :: "nat \<Rightarrow> char" where
  "hex_char d = ''0123456789abcdef'' ! d"

definition repr_char :: "char \<Rightarrow> char \<Rightarrow> string" where
  "repr_char q c =
     (let n = (of_char c :: nat)
      in if c = CHR 0x5C then [CHR 0x5C, CHR 0x5C]
         else if c = q then [CHR 0x5C, q]
         else if c = CHR 0x0A then [CHR 0x5C, CHR ''n'']
         else if c = CHR 0x0D then [CHR 0x5C, CHR ''r'']
         else if c = CHR 0x09 then [CHR 0x5C, CHR ''t'']
         else if n < 32 \<or> n = 127 then [CHR 0x5C, CHR ''x'', hex_char (n div 16), hex_char (n mod 16)]
         else [c])"

definition py_repr_str :: "string \<Rightarrow> string" where
  "py_repr_str s =
     (let q = (if CHR 0x27 \<in> set s \<and> CHR 0x22 \<notin> set s then CHR 0x22 else CHR 0x27)
      in [q] @ concat (map (repr_char q) s) @ [q])"

fun join :: "string \<Rightarrow> string list \<Rightarrow> string" where
  "join sep [] = []"
| "join sep [x] = x"
| "join sep (x # y # ys) = x @ sep @ join sep (y # ys)"

text \<open>\<^verbatim>\<open>d.get(key, default)\<close> on an entry that may be absent.\<close>

definition dict_get :: "'a option \<Rightarrow> 'a \<Rightarrow> 'a" where
  "dict_get entry dflt = (case entry of None \<Rightarrow> dflt | Some v \<Rightarrow> v)"

text \<open>Truthiness of the result of \<^verbatim>\<open>d.get(key)\<close> for a string entry.\<close>

definition str_truthy :: "string option \<Rightarrow> bool" where
  "str_truthy entry = (case entry of None \<Rightarrow> False | Some s \<Rightarrow> s \<noteq> [])"

section \<open>Data model\<close>

text \<open>
  A table is the dictionary the catalog returns. The keys the engines read are
  \<^verbatim>\<open>fullyQualifiedName\<close>, \<^verbatim>\<open>name\<close>, \<^verbatim>\<open>columns\<close>, \<^verbatim>\<open>owner\<close>, \<^verbatim>\<open>tags\<close>, \<^verbatim>\<open>updatedAt\<close>,
  \<^verbatim>\<open>description\<close> and \<^verbatim>\<open>rowCount\<close>; all are read with \<^verbatim>\<open>.get\<close>, so each may be absent.
  A column must have a \<^verbatim>\<open>name\<close> (the source reads \<^verbatim>\<open>col["name"]\<close>); its other keys may be
  absent. A tag is a dictionary with the key \<^verbatim>\<open>tagFQN\<close>.
\<close>

record Tag =
  tagFQN :: "string option"

record Owner =
  owner_name :: "string option"

record Column =
  col_name :: string
  col_dataType :: "string option"
  col_description :: "string option"
  col_tags :: "Tag list option"

record Table =
  fullyQualifiedName :: "string option"
  tbl_name :: "string option"
  columns :: "Column list option"
  tbl_owner :: "Owner option"
  tbl_tags :: "Tag list option"
  updatedAt :: "py_value option"
  tbl_description :: "string option"
  rowCount :: "int option"

text \<open>\<^verbatim>\<open>str(tags)\<close> of a list of tag dictionaries.\<close>

definition str_tag :: "Tag \<Rightarrow> string" where
  "str_tag tag =
     (case tagFQN tag of
        None \<Rightarrow> ''{}''
      | Some v \<Rightarrow> ''{'' @ py_repr_str ''tagFQN'' @ '': '' @ py_repr_str v @ ''}'')"

definition str_tags :: "Tag list \<Rightarrow> string" where
  "str_tags tags = ''['' @ join '', '' (map str_tag tags) @ '']''"

text \<open>\<^verbatim>\<open>table.get("owner", {}).get("name")\<close>\<close>

definition get_owner_name :: "Table \<Rightarrow> string option" where
  "get_owner_name table = (case tbl_owner table of None \<Rightarrow> None | Some ow \<Rightarrow> owner_name ow)"

text \<open>
  A \<^verbatim>\<open>datetime\<close> of the program is naive: a date and a time of day on the local calendar,
  without a zone. It is modelled as its position on that calendar, in seconds from
  1970-01-01 00:00:00, so that the difference of two values is the \<^verbatim>\<open>total_seconds()\<close> of
  their \<^verbatim>\<open>timedelta\<close>. The reading of the clock, \<^verbatim>\<open>datetime.now()\<close>, is the local time of
  the moment; it is an argument \<open>now\<close> of every operation that reads it, and the readings
  taken during one call are the same.
\<close>

type_synonym datetime = real

record ColumnDef =
  sd_dataType :: string
  sd_nullable :: bool
  sd_description :: string
  sd_isPII :: bool

record ChangeLogEntry =
  log_timestamp :: datetime
  log_action :: string
  log_user :: string
  log_details :: string
  log_notes :: "string option"

record ApprovalEntry =
  appr_timestamp :: datetime
  approver :: string
  appr_notes :: string

text \<open>
  A Python dictionary is an association list in insertion order with distinct keys:
  \<^const>\<open>map_of\<close> looks a key up and \<^const>\<open>AList.update\<close> stores a value (in place for
  a key already there, at the end for a new one).
\<close>

type_synonym ('k, 'v) dict = "('k \<times> 'v) list"

definition dict_wf :: "('k, 'v) dict \<Rightarrow> bool" where
  "dict_wf d = distinct (map fst d)"

definition dict_has :: "('k, 'v) dict \<Rightarrow> 'k \<Rightarrow> bool" where
  "dict_has d k = (map_of d k \<noteq> None)"

record DataContract =
  contract_id :: string
  table_fqn :: string
  table_name :: string
  database :: string
  version :: string
  status :: string
  owner :: string
  created_date :: datetime
  last_modified :: datetime
  schema_definition :: "(string, ColumnDef) dict"
  quality_rules :: "(string, py_value) dict list"
  sla_requirements :: "(string, py_value) dict"
  classification :: string
  tags :: "Tag list"
  description :: string
  business_purpose :: string
  registered_consumers :: "string list"
  downstream_tables :: "string list"
  retention_days :: "int option"
  contains_pii :: bool
  compliance_requirements :: "string list"
  change_log :: "ChangeLogEntry list"
  approval_history :: "ApprovalEntry list"

section \<open>Trust score engine: freshness\<close>

text \<open>
  \<^verbatim>\<open>datetime.fromtimestamp\<close> turns a number of seconds since the epoch into the naive
  local time of that instant, or raises (OverflowError, OSError or ValueError). Which
  timestamps it accepts and which local time it gives depend on the platform and on the
  time zone of the process, so the conversion is an argument \<open>fromtimestamp\<close> of the
  operations that call it: what is proved holds for every conversion. The argument stands
  for the library function applied to the float that the quotient rounds to.
\<close>

type_synonym conversion = "real \<Rightarrow> py_error + datetime"

text \<open>
  The two lines of the \<^verbatim>\<open>try\<close> block that can raise, \<^verbatim>\<open>updated_at / 1000\<close> and
  \<^verbatim>\<open>datetime.fromtimestamp\<close>, then
  \<^verbatim>\<open>(datetime.now() - last_update).total_seconds() / 3600\<close>: the hours between two local
  times.
\<close>

definition hours_since_update :: "conversion \<Rightarrow> datetime \<Rightarrow> py_value \<Rightarrow> py_error + real" where
  "hours_since_update fromtimestamp now updated_at =
     (case true_div_1000 updated_at of
        Inl e \<Rightarrow> Inl e
      | Inr secs \<Rightarrow>
          (case fromtimestamp secs of
             Inl e \<Rightarrow> Inl e
           | Inr last_update \<Rightarrow> Inr ((now - last_update) / 3600)))"

definition freshness_by_hours :: "real \<Rightarrow> real \<times> string list \<times> string list" where
  "freshness_by_hours h =
     (if h \<le> 1 then (100, [], [''Data updated within last hour (real-time fresh)''])
      else if h \<le> 6 then (95, [], [''Data updated within last 6 hours''])
      else if h \<le> 24 then (85, [], [''Data updated within last 24 hours''])
      else if h \<le> 48 then (70, [], [])
      else if h \<le> 168 then (50, [''Data not updated in several days''], [])
      else (20, [''Data is stale (not updated in over a week)''], []))"

definition calculate_freshness_score ::
    "conversion \<Rightarrow> datetime \<Rightarrow> Table \<Rightarrow> real \<times> string list \<times> string list" where
  "calculate_freshness_score fromtimestamp now table =
     (let updated_at = dict_get (updatedAt table) PNone
      in if \<not> truthy updated_at then (0, [''Enable update timestamp tracking''], [])
         else
           (case hours_since_update fromtimestamp now updated_at of
              Inl e \<Rightarrow> (0, [''Invalid update timestamp''], [])
            | Inr h \<Rightarrow>
                (case freshness_by_hours h of
                   (score, improvements, strengths) \<Rightarrow> (min score 100, improvements, strengths))))"

section \<open>Trust score engine: the other component scorers\<close>

text \<open>
  Each scorer keeps a running \<^verbatim>\<open>score\<close> and two lists, \<^verbatim>\<open>improvements\<close> and
  \<^verbatim>\<open>strengths\<close>, and returns \<^verbatim>\<open>min(score, 100.0), improvements, strengths\<close>. The three
  variables are threaded as one triple: \<open>add_score\<close> is \<^verbatim>\<open>score += x\<close>,
  \<open>append_improvement\<close> is \<^verbatim>\<open>improvements.append(m)\<close>, \<open>append_strength\<close> is
  \<^verbatim>\<open>strengths.append(m)\<close>.
\<close>

type_synonym scoring = "real \<times> string list \<times> string list"

definition add_score :: "real \<Rightarrow> scoring \<Rightarrow> scoring" where
  "add_score x acc =
     (case acc of (score, improvements, strengths) \<Rightarrow> (score + x, improvements, strengths))"

definition append_improvement :: "string \<Rightarrow> scoring \<Rightarrow> scoring" where
  "append_improvement m acc =
     (case acc of (score, improvements, strengths) \<Rightarrow> (score, improvements @ [m], strengths))"

definition append_strength :: "string \<Rightarrow> scoring \<Rightarrow> scoring" where
  "append_strength m acc =
     (case acc of (score, improvements, strengths) \<Rightarrow> (score, improvements, strengths @ [m]))"

definition capped :: "scoring \<Rightarrow> scoring" where
  "capped acc =
     (case acc of (score, improvements, strengths) \<Rightarrow> (min score 100, improvements, strengths))"

definition get_fqn :: "Table \<Rightarrow> string" where
  "get_fqn table = dict_get (fullyQualifiedName table) []"

definition get_columns :: "Table \<Rightarrow> Column list" where
  "get_columns table = dict_get (columns table) []"

definition get_tags :: "Table \<Rightarrow> Tag list" where
  "get_tags table = dict_get (tbl_tags table) []"

text \<open>
  The columns the quality scorer counts as typed:
  \<^verbatim>\<open>[c for c in columns if c.get("dataType") not in ["", "UNKNOWN"]]\<close>. For a column with
  no \<^verbatim>\<open>dataType\<close> key, \<^verbatim>\<open>c.get("dataType")\<close> is \<^verbatim>\<open>None\<close>, which is not in the list.
\<close>

definition typed_columns :: "Column list \<Rightarrow> Column list" where
  "typed_columns cols = filter (\<lambda>c. col_dataType c \<notin> set [Some [], Some ''UNKNOWN'']) cols"

definition calculate_data_quality_score :: "Table \<Rightarrow> (string, DataContract) dict \<Rightarrow> scoring" where
  "calculate_data_quality_score table contracts =
     (let fqn = get_fqn table;
          acc = (0, [], []);
          acc = add_score 20 acc;
          acc = (case map_of contracts fqn of
                   Some contract \<Rightarrow>
                     if quality_rules contract \<noteq> []
                     then append_strength ''Quality rules defined'' (add_score 30 acc)
                     else append_improvement ''Define quality rules'' acc
                 | None \<Rightarrow> append_improvement ''Create data contract with quality rules'' acc);
          cols = get_columns table;
          acc = (if cols \<noteq> [] then
                   let acc = add_score 20 acc;
                       typed = typed_columns cols
                   in if typed \<noteq> [] then
                        let type_coverage = real (length typed) / real (length cols) * 30;
                            acc = add_score type_coverage acc
                        in if type_coverage \<ge> 25
                           then append_strength
                                  (''Strong data type coverage ('' @ str_nat (length typed) @ ''/'' @
                                   str_nat (length cols) @ '' columns)'') acc
                           else append_improvement ''Improve data type definitions'' acc
                      else acc
                 else append_improvement ''Define table schema'' acc)
      in capped acc)"

definition status_scores :: "(string, real) dict" where
  "status_scores = [(''active'', 35), (''review'', 25), (''draft'', 10), (''deprecated'', 5)]"

definition calculate_contract_availability_score ::
    "Table \<Rightarrow> (string, DataContract) dict \<Rightarrow> scoring" where
  "calculate_contract_availability_score table contracts =
     (let fqn = get_fqn table;
          acc = (0, [], [])
      in case map_of contracts fqn of
           None \<Rightarrow> (0, [''Create data contract''], [])
         | Some contract \<Rightarrow>
             let acc = add_score 40 acc;
                 acc = append_strength ''Data contract exists'' acc;
                 status_score = dict_get (map_of status_scores (status contract)) 0;
                 acc = add_score status_score acc;
                 acc = (if status contract = ''active'' then append_strength ''Contract is active'' acc
                        else if status contract = ''review''
                        then append_improvement ''Activate contract after review'' acc
                        else if status contract = ''draft''
                        then append_improvement ''Move contract from draft to review/active'' acc
                        else acc);
                 acc = (if sla_requirements contract \<noteq> [] \<and>
                           truthy (dict_get (map_of (sla_requirements contract) ''freshness_hours'') PNone)
                        then append_strength ''SLA requirements defined'' (add_score 15 acc)
                        else append_improvement ''Define SLA requirements'' acc);
                 acc = (if schema_definition contract \<noteq> [] \<and> length (schema_definition contract) > 0
                        then add_score 10 acc
                        else append_improvement ''Complete schema definition in contract'' acc)
             in capped acc)"

definition calculate_documentation_score :: "Table \<Rightarrow> (string, DataContract) dict \<Rightarrow> scoring" where
  "calculate_documentation_score table contracts =
     (let fqn = get_fqn table;
          acc = (0, [], []);
          description = dict_get (tbl_description table) [];
          acc = (if description \<noteq> [] \<and> length description > 20
                 then append_strength ''Table has comprehensive description'' (add_score 30 acc)
                 else if description \<noteq> []
                 then append_improvement ''Expand table description'' (add_score 15 acc)
                 else append_improvement ''Add table description'' acc);
          cols = get_columns table;
          acc = (if cols \<noteq> [] then
                   let documented_columns = filter (\<lambda>c. dict_get (col_description c) [] \<noteq> []) cols;
                       doc_coverage = real (length documented_columns) / real (length cols) * 30;
                       acc = add_score doc_coverage acc
                   in if doc_coverage \<ge> 25
                      then append_strength
                             (''Strong column documentation ('' @ str_nat (length documented_columns) @
                              ''/'' @ str_nat (length cols) @ '' columns)'') acc
                      else if doc_coverage \<ge> 10
                      then append_improvement ''Document more columns'' acc
                      else append_improvement ''Add column descriptions'' acc
                 else acc);
          tags = get_tags table;
          acc = (if tags \<noteq> [] \<and> length tags > 0
                 then append_strength ''Table is tagged'' (add_score 15 acc)
                 else append_improvement ''Add relevant tags'' acc);
          acc = (case map_of contracts fqn of
                   Some contract \<Rightarrow>
                     if business_purpose contract \<noteq> [] \<and> length (business_purpose contract) > 10
                     then append_strength ''Business purpose documented'' (add_score 15 acc)
                     else append_improvement ''Document business purpose in contract'' acc
                 | None \<Rightarrow> append_improvement ''Create contract to document business purpose'' acc);
          acc = (if str_truthy (get_owner_name table)
                 then add_score 10 acc
                 else append_improvement ''Assign table owner'' acc)
      in capped acc)"

text \<open>
  The lineage scorer has a third parameter, \<^verbatim>\<open>mock_gen\<close>, which its body never reads; it is
  left out.
\<close>

definition calculate_lineage_usage_score :: "Table \<Rightarrow> (string, DataContract) dict \<Rightarrow> scoring" where
  "calculate_lineage_usage_score table contracts =
     (let fqn = get_fqn table;
          acc = (0, [], []);
          acc = (case map_of contracts fqn of
                   Some contract \<Rightarrow>
                     let downstream_count = length (downstream_tables contract);
                         acc = (if downstream_count > 5
                                then append_strength
                                       (''High usage: '' @ str_nat downstream_count @
                                        '' downstream dependencies'') (add_score 35 acc)
                                else if downstream_count > 2
                                then append_strength
                                       (''Moderate usage: '' @ str_nat downstream_count @
                                        '' downstream dependencies'') (add_score 25 acc)
                                else if downstream_count > 0
                                then add_score 15 acc
                                else append_improvement ''No downstream dependencies tracked'' acc);
                         consumer_count = length (registered_consumers contract)
                     in if consumer_count \<ge> 3
                        then append_strength (str_nat consumer_count @ '' registered consumers'')
                               (add_score 35 acc)
                        else if consumer_count \<ge> 1
                        then append_strength (str_nat consumer_count @ '' registered consumer(s)'')
                               (add_score 20 acc)
                        else append_improvement ''Register data consumers'' acc
                 | None \<Rightarrow> append_improvement ''Create contract to track consumers and lineage'' acc);
          row_count = dict_get (rowCount table) 0;
          acc = (if row_count > 100000
                 then append_strength ''Large dataset (high usage indicator)'' (add_score 15 acc)
                 else if row_count > 1000 then add_score 10 acc
                 else if row_count > 0 then add_score 5 acc
                 else append_improvement ''No row count data available'' acc);
          acc = (if truthy (dict_get (updatedAt table) PNone) then add_score 15 acc else acc)
      in capped acc)"

text \<open>
  The classification of a table: the loop over its tags stops at the first tag whose
  \<^verbatim>\<open>tagFQN\<close> contains \<^verbatim>\<open>Classification.\<close> and takes what follows the last occurrence,
  lower-cased.
\<close>

fun find_classification :: "Tag list \<Rightarrow> string option" where
  "find_classification [] = None"
| "find_classification (tag # rest) =
     (let tag_fqn = dict_get (tagFQN tag) []
      in if py_in ''Classification.'' tag_fqn
         then Some (py_lower (last (py_split tag_fqn ''Classification.'')))
         else find_classification rest)"

text \<open>\<^verbatim>\<open>any("PII" in str(col.get("tags", [])) for col in columns)\<close>\<close>

definition column_has_pii :: "Column \<Rightarrow> bool" where
  "column_has_pii col = py_in ''PII'' (str_tags (dict_get (col_tags col) []))"

definition has_pii_column :: "Column list \<Rightarrow> bool" where
  "has_pii_column cols = list_ex column_has_pii cols"

definition int_truthy :: "int option \<Rightarrow> bool" where
  "int_truthy entry = (case entry of None \<Rightarrow> False | Some i \<Rightarrow> i \<noteq> 0)"

definition calculate_security_compliance_score ::
    "Table \<Rightarrow> (string, DataContract) dict \<Rightarrow> scoring" where
  "calculate_security_compliance_score table contracts =
     (let fqn = get_fqn table;
          acc = (0, [], []);
          classification = find_classification (get_tags table);
          acc = (if str_truthy classification
                 then append_strength (''Data classified as '' @ dict_get classification [])
                        (add_score 30 acc)
                 else append_improvement ''Assign data classification'' acc);
          has_pii = has_pii_column (get_columns table);
          acc = (if has_pii then
                   (case map_of contracts fqn of
                      Some contract \<Rightarrow>
                        if contains_pii contract then
                          let acc = append_strength ''PII properly flagged in contract'' (add_score 25 acc)
                          in if int_truthy (retention_days contract)
                             then append_strength ''Retention policy defined'' (add_score 15 acc)
                             else append_improvement ''Define retention policy for PII data'' acc
                        else add_score 10 (append_improvement ''Flag PII in data contract'' acc)
                    | None \<Rightarrow> append_improvement ''Create contract to manage PII'' acc)
                 else add_score 20 acc);
          acc = (if str_truthy (get_owner_name table)
                 then append_strength ''Data steward assigned'' (add_score 20 acc)
                 else append_improvement ''Assign data steward'' acc);
          acc = (case map_of contracts fqn of
                   Some contract \<Rightarrow>
                     if compliance_requirements contract \<noteq> [] \<and>
                        length (compliance_requirements contract) > 0
                     then append_strength ''Compliance requirements documented'' (add_score 10 acc)
                     else append_improvement ''Document compliance requirements'' acc
                 | None \<Rightarrow> acc)
      in capped acc)"

section \<open>Trust score engine: composite score and trust level\<close>

record Weights =
  w_data_quality :: real
  w_contract_availability :: real
  w_freshness :: real
  w_documentation :: real
  w_lineage_usage :: real
  w_security_compliance :: real

definition WEIGHTS :: Weights where
  "WEIGHTS = \<lparr> w_data_quality = 25 / 100, w_contract_availability = 20 / 100,
               w_freshness = 15 / 100, w_documentation = 15 / 100,
               w_lineage_usage = 15 / 100, w_security_compliance = 10 / 100 \<rparr>"

text \<open>\<^verbatim>\<open>TRUST_LEVELS\<close>, a dictionary from (min, max) to the level, in the order it is written.\<close>

definition TRUST_LEVELS :: "((real \<times> real), string) dict" where
  "TRUST_LEVELS =
     [((90, 100), ''Platinum''),
      ((75, 90), ''Gold''),
      ((60, 75), ''Silver''),
      ((40, 60), ''Bronze''),
      ((0, 40), ''Needs Attention'')]"

text \<open>
  The loop over \<^verbatim>\<open>TRUST_LEVELS.items()\<close>: the first pair with
  \<^verbatim>\<open>min_score <= composite < max_score\<close> sets the level and breaks; the level is the one
  set before the loop when no pair matches.
\<close>

fun level_loop :: "real \<Rightarrow> ((real \<times> real), string) dict \<Rightarrow> string \<Rightarrow> string" where
  "level_loop composite [] trust_level = trust_level"
| "level_loop composite (((min_score, max_score), level) # rest) trust_level =
     (if min_score \<le> composite \<and> composite < max_score then level
      else level_loop composite rest trust_level)"

definition determine_trust_level :: "real \<Rightarrow> string" where
  "determine_trust_level composite = level_loop composite TRUST_LEVELS ''Needs Attention''"

record DataTrustScore =
  ts_fqn :: string
  ts_table_name :: string
  ts_database :: string
  data_quality_score :: real
  contract_availability_score :: real
  freshness_score :: real
  documentation_score :: real
  lineage_usage_score :: real
  security_compliance_score :: real
  composite_trust_score :: real
  trust_level :: string
  ts_owner :: "string option"
  ts_classification :: "string option"
  last_assessed :: datetime
  improvement_areas :: "string list"
  strengths :: "string list"

definition calculate_trust_score ::
    "conversion \<Rightarrow> datetime \<Rightarrow> Table \<Rightarrow> (string, DataContract) dict \<Rightarrow> DataTrustScore" where
  "calculate_trust_score fromtimestamp now table contracts =
     (let fqn = get_fqn table;
          (quality_score, quality_improvements, quality_strengths) =
             calculate_data_quality_score table contracts;
          (contract_score, contract_improvements, contract_strengths) =
             calculate_contract_availability_score table contracts;
          (fresh_score, freshness_improvements, freshness_strengths) =
             calculate_freshness_score fromtimestamp now table;
          (doc_score, doc_improvements, doc_strengths) =
             calculate_documentation_score table contracts;
          (lineage_score, lineage_improvements, lineage_strengths) =
             calculate_lineage_usage_score table contracts;
          (security_score, security_improvements, security_strengths) =
             calculate_security_compliance_score table contracts;
          composite =
             quality_score * w_data_quality WEIGHTS +
             contract_score * w_contract_availability WEIGHTS +
             fresh_score * w_freshness WEIGHTS +
             doc_score * w_documentation WEIGHTS +
             lineage_score * w_lineage_usage WEIGHTS +
             security_score * w_security_compliance WEIGHTS;
          level = determine_trust_level composite;
          all_improvements =
             quality_improvements @ contract_improvements @ freshness_improvements @
             doc_improvements @ lineage_improvements @ security_improvements;
          all_strengths =
             quality_strengths @ contract_strengths @ freshness_strengths @
             doc_strengths @ lineage_strengths @ security_strengths;
          classification = find_classification (get_tags table)
      in \<lparr> ts_fqn = fqn,
           ts_table_name = dict_get (tbl_name table) [],
           ts_database = (if fqn \<noteq> [] then hd (py_split fqn ''.'') else ''Unknown''),
           data_quality_score = quality_score,
           contract_availability_score = contract_score,
           freshness_score = fresh_score,
           documentation_score = doc_score,
           lineage_usage_score = lineage_score,
           security_compliance_score = security_score,
           composite_trust_score = composite,
           trust_level = level,
           ts_owner = get_owner_name table,
           ts_classification = classification,
           last_assessed = now,
           improvement_areas = take 5 all_improvements,
           strengths = take 5 all_strengths \<rparr>)"

section \<open>Governance engine\<close>

record GovernanceMetrics =
  total_assets :: nat
  owned_assets :: nat
  documented_assets :: nat
  classified_assets :: nat
  contracted_assets :: nat
  compliant_assets :: nat

text \<open>The coverage properties of \<^verbatim>\<open>GovernanceMetrics\<close>.\<close>

definition ownership_coverage :: "GovernanceMetrics \<Rightarrow> real" where
  "ownership_coverage m =
     (if total_assets m > 0 then real (owned_assets m) / real (total_assets m) * 100 else 0)"

definition documentation_coverage :: "GovernanceMetrics \<Rightarrow> real" where
  "documentation_coverage m =
     (if total_assets m > 0 then real (documented_assets m) / real (total_assets m) * 100 else 0)"

definition classification_coverage :: "GovernanceMetrics \<Rightarrow> real" where
  "classification_coverage m =
     (if total_assets m > 0 then real (classified_assets m) / real (total_assets m) * 100 else 0)"

definition contract_coverage :: "GovernanceMetrics \<Rightarrow> real" where
  "contract_coverage m =
     (if total_assets m > 0 then real (contracted_assets m) / real (total_assets m) * 100 else 0)"

definition compliance_rate :: "GovernanceMetrics \<Rightarrow> real" where
  "compliance_rate m =
     (if total_assets m > 0 then real (compliant_assets m) / real (total_assets m) * 100 else 0)"

text \<open>\<^verbatim>\<open>sum(1 for t in tables if p(t))\<close>\<close>

definition sum_ones :: "('a \<Rightarrow> bool) \<Rightarrow> 'a list \<Rightarrow> nat" where
  "sum_ones p xs = sum_list (map (\<lambda>x. 1) (filter p xs))"

text \<open>
  The condition of the compliance count. \<^verbatim>\<open>t.get("fullyQualifiedName")\<close> is \<^verbatim>\<open>None\<close> for a
  table without the key, and \<^verbatim>\<open>None\<close> is no key of the contract map.
\<close>

definition is_compliant :: "(string, DataContract) dict \<Rightarrow> Table \<Rightarrow> bool" where
  "is_compliant contracts t =
     (case fullyQualifiedName t of
        None \<Rightarrow> False
      | Some fqn \<Rightarrow>
          (case map_of contracts fqn of
             None \<Rightarrow> False
           | Some contract \<Rightarrow> status contract = ''active'' \<and> classification contract \<noteq> []))"

definition calculate_governance_metrics ::
    "Table list \<Rightarrow> (string, DataContract) dict \<Rightarrow> GovernanceMetrics" where
  "calculate_governance_metrics tables contracts =
     (let total = length tables;
          owned = sum_ones (\<lambda>t. str_truthy (get_owner_name t)) tables;
          documented = sum_ones (\<lambda>t. str_truthy (tbl_description t)) tables;
          classified = sum_ones (\<lambda>t. dict_get (tbl_tags t) [] \<noteq> []) tables;
          contracted = length contracts;
          compliant = sum_ones (is_compliant contracts) tables
      in \<lparr> total_assets = total,
           owned_assets = owned,
           documented_assets = documented,
           classified_assets = classified,
           contracted_assets = contracted,
           compliant_assets = compliant \<rparr>)"

text \<open>
  The result of \<^verbatim>\<open>identify_governance_gaps\<close> is a dictionary with five fixed keys, each
  holding a list of FQNs: a record with one field for each key.
\<close>

record GovernanceGaps =
  no_owner :: "string list"
  no_description :: "string list"
  no_classification :: "string list"
  no_contract :: "string list"
  contains_pii_unclassified :: "string list"

text \<open>The body of the loop over the tables.\<close>

definition gaps_step :: "(string, DataContract) dict \<Rightarrow> GovernanceGaps \<Rightarrow> Table \<Rightarrow> GovernanceGaps" where
  "gaps_step contracts gaps table =
     (let fqn = get_fqn table;
          gaps = (if \<not> str_truthy (get_owner_name table)
                  then gaps\<lparr>no_owner := no_owner gaps @ [fqn]\<rparr> else gaps);
          gaps = (if \<not> str_truthy (tbl_description table)
                  then gaps\<lparr>no_description := no_description gaps @ [fqn]\<rparr> else gaps);
          gaps = (if \<not> (dict_get (tbl_tags table) [] \<noteq> [])
                  then gaps\<lparr>no_classification := no_classification gaps @ [fqn]\<rparr> else gaps);
          gaps = (if \<not> dict_has contracts fqn
                  then gaps\<lparr>no_contract := no_contract gaps @ [fqn]\<rparr> else gaps);
          tags_str = str_tags (get_tags table);
          gaps = (if py_in ''PII'' tags_str \<and> \<not> dict_has contracts fqn
                  then gaps\<lparr>contains_pii_unclassified := contains_pii_unclassified gaps @ [fqn]\<rparr>
                  else gaps)
      in gaps)"

definition identify_governance_gaps ::
    "Table list \<Rightarrow> (string, DataContract) dict \<Rightarrow> GovernanceGaps" where
  "identify_governance_gaps tables contracts =
     foldl (gaps_step contracts)
       \<lparr> no_owner = [], no_description = [], no_classification = [], no_contract = [],
         contains_pii_unclassified = [] \<rparr>
       tables"

section \<open>Data contract engine\<close>

text \<open>
  The engine's state is its dictionary \<^verbatim>\<open>self.contracts\<close>, from FQN to contract. An
  operation that mutates a contract returns its result and the new dictionary.
\<close>

definition arrow :: string where
  "arrow = [CHR 0xE2, CHR 0x86, CHR 0x92]"

definition update_contract_status ::
    "datetime \<Rightarrow> (string, DataContract) dict \<Rightarrow> string \<Rightarrow> string \<Rightarrow> string \<Rightarrow> string \<Rightarrow>
     bool \<times> (string, DataContract) dict" where
  "update_contract_status now contracts fqn new_status user notes =
     (case map_of contracts fqn of
        None \<Rightarrow> (False, contracts)
      | Some contract \<Rightarrow>
          let old_status = status contract;
              contract = contract\<lparr>status := new_status\<rparr>;
              contract = contract\<lparr>last_modified := now\<rparr>;
              contract = contract\<lparr>change_log := change_log contract @
                 [\<lparr> log_timestamp = now,
                    log_action = ''status_change'',
                    log_user = user,
                    log_details = old_status @ '' '' @ arrow @ '' '' @ new_status,
                    log_notes = Some notes \<rparr>]\<rparr>;
              contract = (if new_status = ''active''
                          then contract\<lparr>approval_history := approval_history contract @
                                 [\<lparr> appr_timestamp = now, approver = user, appr_notes = notes \<rparr>]\<rparr>
                          else contract)
          in (True, AList.update fqn contract contracts))"

record SchemaChange =
  change_table_fqn :: string
  change_type :: string
  column_name :: string
  old_value :: "string option"
  new_value :: "string option"
  detected_at :: datetime
  severity :: string
  impact_level :: string
  requires_approval :: bool

text \<open>
  \<^verbatim>\<open>{col["name"]: col for col in current_table.get("columns", [])}\<close>: a later column of the
  same name replaces the earlier one, at the earlier one's place.
\<close>

definition columns_by_name :: "Column list \<Rightarrow> (string, Column) dict" where
  "columns_by_name cols = foldl (\<lambda>d col. AList.update (col_name col) col d) [] cols"

text \<open>
  The three loops of \<^verbatim>\<open>detect_schema_changes\<close>. A loop over the keys of a dictionary that
  reads the value of each key is a loop over its entries.
\<close>

definition removed_changes ::
    "datetime \<Rightarrow> string \<Rightarrow> (string, ColumnDef) dict \<Rightarrow> (string, Column) dict \<Rightarrow> SchemaChange list" where
  "removed_changes now fqn contract_columns current_columns =
     concat (map (\<lambda>(cname, cdef).
        if \<not> dict_has current_columns cname
        then [\<lparr> change_table_fqn = fqn, change_type = ''removed'', column_name = cname,
                old_value = Some (sd_dataType cdef), new_value = None, detected_at = now,
                severity = ''breaking'', impact_level = ''high'', requires_approval = True \<rparr>]
        else []) contract_columns)"

definition added_changes ::
    "datetime \<Rightarrow> string \<Rightarrow> (string, ColumnDef) dict \<Rightarrow> (string, Column) dict \<Rightarrow> SchemaChange list" where
  "added_changes now fqn contract_columns current_columns =
     concat (map (\<lambda>(cname, col).
        if \<not> dict_has contract_columns cname
        then [\<lparr> change_table_fqn = fqn, change_type = ''added'', column_name = cname,
                old_value = None, new_value = Some (dict_get (col_dataType col) ''UNKNOWN''),
                detected_at = now,
                severity = ''non-breaking'', impact_level = ''low'', requires_approval = False \<rparr>]
        else []) current_columns)"

definition type_changes ::
    "datetime \<Rightarrow> string \<Rightarrow> (string, ColumnDef) dict \<Rightarrow> (string, Column) dict \<Rightarrow> SchemaChange list" where
  "type_changes now fqn contract_columns current_columns =
     concat (map (\<lambda>(cname, cdef).
        case map_of current_columns cname of
          None \<Rightarrow> []
        | Some col \<Rightarrow>
            let old_type = sd_dataType cdef;
                new_type = dict_get (col_dataType col) ''UNKNOWN''
            in if old_type \<noteq> new_type
               then [\<lparr> change_table_fqn = fqn, change_type = ''type_changed'', column_name = cname,
                       old_value = Some old_type, new_value = Some new_type, detected_at = now,
                       severity = ''breaking'', impact_level = ''high'', requires_approval = True \<rparr>]
               else []) contract_columns)"

definition detect_schema_changes ::
    "datetime \<Rightarrow> (string, DataContract) dict \<Rightarrow> string \<Rightarrow> Table \<Rightarrow> SchemaChange list" where
  "detect_schema_changes now contracts fqn current_table =
     (case map_of contracts fqn of
        None \<Rightarrow> []
      | Some contract \<Rightarrow>
          let current_columns = columns_by_name (get_columns current_table);
              contract_columns = schema_definition contract;
              changes = [];
              changes = changes @ removed_changes now fqn contract_columns current_columns;
              changes = changes @ added_changes now fqn contract_columns current_columns;
              changes = changes @ type_changes now fqn contract_columns current_columns
          in changes)"

section \<open>Concrete tables and contracts\<close>

text \<open>The empty dictionary as a table, and a column with a name only.\<close>

definition blank_table :: Table where
  "blank_table =
     \<lparr> fullyQualifiedName = None, tbl_name = None, columns = None, tbl_owner = None,
       tbl_tags = None, updatedAt = None, tbl_description = None, rowCount = None \<rparr>"

definition bare_column :: "string \<Rightarrow> Column" where
  "bare_column n =
     \<lparr> col_name = n, col_dataType = None, col_description = None, col_tags = None \<rparr>"

definition typed_column :: "string \<Rightarrow> string \<Rightarrow> Column" where
  "typed_column n ty = (bare_column n)\<lparr>col_dataType := Some ty\<rparr>"

text \<open>A contract as \<^verbatim>\<open>create_contract\<close> leaves it, before any rule or consumer is added.\<close>

definition draft_contract :: "string \<Rightarrow> (string, ColumnDef) dict \<Rightarrow> DataContract" where
  "draft_contract fqn schema =
     \<lparr> contract_id = ''0123456789ab'', table_fqn = fqn, table_name = ''orders'',
       database = ''Deliver'', version = ''1.0.0'', status = ''draft'', owner = ''alice.data'',
       created_date = 1690000000, last_modified = 1690000000,
       schema_definition = schema, quality_rules = [],
       sla_requirements = [(''freshness_hours'', PInt 24)],
       classification = ''internal'', tags = [], description = ''Orders'',
       business_purpose = ''Supports Deliver business operations'',
       registered_consumers = [], downstream_tables = [],
       retention_days = None, contains_pii = False, compliance_requirements = [],
       change_log = [\<lparr> log_timestamp = 1690000000, log_action = ''created'',
                       log_user = ''alice.data'', log_details = ''Contract created'',
                       log_notes = None \<rparr>],
       approval_history = [] \<rparr>"

definition column_def :: "string \<Rightarrow> ColumnDef" where
  "column_def ty = \<lparr> sd_dataType = ty, sd_nullable = True, sd_description = [], sd_isPII = False \<rparr>"

text \<open>
  The table \<^verbatim>\<open>Deliver.raw.orders\<close> whose contract records the columns \<^verbatim>\<open>order_id: INT\<close>,
  \<^verbatim>\<open>status: VARCHAR\<close> and \<^verbatim>\<open>legacy: TEXT\<close>, and whose current columns are
  \<^verbatim>\<open>order_id: INT\<close>, \<^verbatim>\<open>status: INT\<close> and \<^verbatim>\<open>amount: DECIMAL\<close>.
\<close>

definition orders_contracts :: "(string, DataContract) dict" where
  "orders_contracts =
     [(''Deliver.raw.orders'',
       draft_contract ''Deliver.raw.orders''
         [(''order_id'', column_def ''INT''), (''status'', column_def ''VARCHAR''),
          (''legacy'', column_def ''TEXT'')])]"

definition orders_table :: Table where
  "orders_table =
     blank_table\<lparr> fullyQualifiedName := Some ''Deliver.raw.orders'', tbl_name := Some ''orders'',
       columns := Some [typed_column ''order_id'' ''INT'', typed_column ''status'' ''INT'',
                        typed_column ''amount'' ''DECIMAL''] \<rparr>"

text \<open>
  Conversions for the examples. On a platform whose zone is \<open>utcoffset s\<close> seconds ahead of
  UTC at the instant \<open>s\<close> and whose C library supports the timestamps in \<open>supported\<close>, the
  local time of a supported timestamp \<open>s\<close> is \<open>s + utcoffset s\<close>, and the local time
  \<^verbatim>\<open>datetime.now()\<close> at the instant \<open>t\<close> is \<open>t + utcoffset t\<close>. (The rounding of the
  timestamp to a microsecond is left out; the examples use whole milliseconds.)
\<close>

definition zone_fromtimestamp :: "(real \<Rightarrow> real) \<Rightarrow> (real \<Rightarrow> bool) \<Rightarrow> conversion" where
  "zone_fromtimestamp utcoffset supported s =
     (if supported s then Inr (s + utcoffset s) else Inl OSError)"

text \<open>
  A process in the UTC zone, on a platform that supports the years 1970 through 2038 (the
  common restriction that the Python documentation names).
\<close>

definition utc_fromtimestamp :: conversion where
  "utc_fromtimestamp = zone_fromtimestamp (\<lambda>s. 0) (\<lambda>s. 0 \<le> s \<and> s < 2 ^ 31)"

text \<open>
  A process in the zone of New York between the changes of its UTC offset on 2023-11-05
  and on 2024-11-03 (only these instants are supported in this example): five hours behind
  UTC until 2024-03-10 07:00:00 UTC, four hours behind from then on.
\<close>

definition new_york_fromtimestamp :: conversion where
  "new_york_fromtimestamp =
     zone_fromtimestamp (\<lambda>s. if s < 1710054000 then - 18000 else - 14400)
       (\<lambda>s. 1699164000 \<le> s \<and> s < 1730613600)"

text \<open>
  A table that earns every point of every scorer when it is assessed at the moment of its
  last update, 1700000000 seconds after the epoch, which is the local time
  \<open>assessment_time\<close> of a process in the UTC zone; its contract; and the same table without
  an owner.
\<close>

definition assessment_time :: datetime where
  "assessment_time = 1700000000"

definition perfect_table :: Table where
  "perfect_table =
     \<lparr> fullyQualifiedName = Some ''Deliver.raw.orders'',
       tbl_name = Some ''orders'',
       columns = Some
         [\<lparr> col_name = ''order_id'', col_dataType = Some ''INT'',
            col_description = Some ''Order key'', col_tags = Some [] \<rparr>,
          \<lparr> col_name = ''email'', col_dataType = Some ''VARCHAR'',
            col_description = Some ''Customer email'',
            col_tags = Some [\<lparr> tagFQN = Some ''PII'' \<rparr>] \<rparr>],
       tbl_owner = Some \<lparr> owner_name = Some ''alice.data'' \<rparr>,
       tbl_tags = Some [\<lparr> tagFQN = Some ''Classification.confidential'' \<rparr>],
       updatedAt = Some (PInt 1700000000000),
       tbl_description = Some ''This table contains Deliver data for raw layer'',
       rowCount = Some 200000 \<rparr>"

definition perfect_contracts :: "(string, DataContract) dict" where
  "perfect_contracts =
     [(''Deliver.raw.orders'',
       (draft_contract ''Deliver.raw.orders''
          [(''order_id'', column_def ''INT''), (''email'', column_def ''VARCHAR'')])
        \<lparr> status := ''active'',
          quality_rules := [[(''type'', PStr ''null_check''), (''threshold'', PFloat (95 / 100))]],
          registered_consumers := [''Dashboard Team (dashboard@company.com)'',
                                   ''ML Pipeline (ml-team@company.com)'',
                                   ''Finance (finance@company.com)''],
          downstream_tables := [''Plan.raw.a'', ''Plan.raw.b'', ''Plan.raw.c'', ''Make.raw.d'',
                                ''Make.raw.e'', ''Quality.raw.f''],
          retention_days := Some 365,
          contains_pii := True,
          compliance_requirements := [''GDPR''] \<rparr>)]"

definition unowned_table :: Table where
  "unowned_table = perfect_table\<lparr> tbl_owner := None \<rparr>"

text \<open>A table whose update timestamp is present and is the epoch, 0 milliseconds.\<close>

definition epoch_table :: Table where
  "epoch_table = blank_table\<lparr> fullyQualifiedName := Some ''Deliver.raw.orders'', updatedAt := Some (PInt 0) \<rparr>"

text \<open>A table whose only column has a name and no \<^verbatim>\<open>dataType\<close> entry.\<close>

definition untyped_table :: Table where
  "untyped_table =
     blank_table\<lparr> fullyQualifiedName := Some ''Deliver.raw.orders'',
       columns := Some [bare_column ''order_id''] \<rparr>"

text \<open>
  A table with a column tagged \<^verbatim>\<open>PII\<close>, as the mock tables of the source have them, with
  no tag of its own.
\<close>

definition pii_column_table :: Table where
  "pii_column_table =
     blank_table\<lparr> fullyQualifiedName := Some ''Deliver.raw.customers'',
       columns := Some [(typed_column ''email'' ''VARCHAR'')\<lparr>col_tags := Some [\<lparr> tagFQN = Some ''PII'' \<rparr>]\<rparr>],
       tbl_tags := Some [] \<rparr>"

text \<open>Ten tables, four of them with an owner and three with a description.\<close>

definition owned_table :: Table where
  "owned_table = blank_table\<lparr> tbl_owner := Some \<lparr> owner_name = Some ''bob.engineering'' \<rparr> \<rparr>"

definition described_table :: Table where
  "described_table = blank_table\<lparr> tbl_description := Some ''Plan data'' \<rparr>"

definition ten_tables :: "Table list" where
  "ten_tables =
     [owned_table, owned_table, owned_table, owned_table,
      described_table, described_table, described_table,
      blank_table, blank_table, blank_table]"



text \<open>
  A table updated on 2024-03-10 at 06:45:00 UTC, a quarter of an hour before the clocks of
  New York go from 02:00 to 03:00, and the local time in New York half an hour later, at
  07:15:00 UTC: 03:15:00 on the local calendar (the instant less four hours).
\<close>

definition spring_forward_table :: Table where
  "spring_forward_table = blank_table\<lparr> updatedAt := Some (PInt 1710053100000) \<rparr>"

definition spring_forward_now :: datetime where
  "spring_forward_now = 1710054900 - 14400"


section \<open>Predicates of the proofs\<close>

definition nonneg :: "scoring \<Rightarrow> bool" where
  "nonneg acc = (0 \<le> fst acc)"

definition at_most_100 :: "scoring \<Rightarrow> bool" where
  "at_most_100 acc = (fst acc \<le> 100)"

text \<open>
  The order of the trust levels, from the lowest to the highest, for the claim that the
  level does not decrease when the composite score grows.
\<close>

definition level_rank :: "string \<Rightarrow> nat" where
  "level_rank level =
     (if level = ''Platinum'' then 4
      else if level = ''Gold'' then 3
      else if level = ''Silver'' then 2
      else if level = ''Bronze'' then 1
      else 0)"

text \<open>
  The specification's reading of a column with a known data type: the column has a data
  type, and it is neither empty nor \<^verbatim>\<open>UNKNOWN\<close>.
\<close>

definition spec_known_type :: "Column \<Rightarrow> bool" where
  "spec_known_type c =
     (case col_dataType c of None \<Rightarrow> False | Some ty \<Rightarrow> ty \<noteq> [] \<and> ty \<noteq> ''UNKNOWN'')"

text \<open>
  The data type a table has now for a column name: that of the last column of that name,
  \<^verbatim>\<open>UNKNOWN\<close> when the column has no \<^verbatim>\<open>dataType\<close> entry.
\<close>

definition current_dataType :: "Column list \<Rightarrow> string \<Rightarrow> string" where
  "current_dataType cols n =
     dict_get (col_dataType (last (filter (\<lambda>c. col_name c = n) cols))) ''UNKNOWN''"

section \<open>The component scores lie between 0 and 100\<close>

lemma fst_add_score: "fst (add_score x acc) = fst acc + x"
  by (cases acc) (simp add: add_score_def)

lemma fst_append_improvement: "fst (append_improvement m acc) = fst acc"
  by (cases acc) (simp add: append_improvement_def)

lemma fst_append_strength: "fst (append_strength m acc) = fst acc"
  by (cases acc) (simp add: append_strength_def)

lemma fst_capped: "fst (capped acc) = min (fst acc) 100"
  by (cases acc) (simp add: capped_def)

lemmas fst_scoring = fst_add_score fst_append_improvement fst_append_strength fst_capped

text \<open>
  A scorer is a chain of \<open>let\<close>s. The rules below walk along the chain: a triple that is
  bound keeps its invariant, any other bound value keeps its definition.
\<close>

lemma nonneg_start: "nonneg (0, [], [])"
  by (simp add: nonneg_def)

lemma nonneg_add_score: "0 \<le> x \<Longrightarrow> nonneg acc \<Longrightarrow> nonneg (add_score x acc)"
  by (simp add: nonneg_def fst_add_score)

lemma nonneg_append_improvement: "nonneg acc \<Longrightarrow> nonneg (append_improvement m acc)"
  by (simp add: nonneg_def fst_append_improvement)

lemma nonneg_append_strength: "nonneg acc \<Longrightarrow> nonneg (append_strength m acc)"
  by (simp add: nonneg_def fst_append_strength)

lemma nonneg_capped: "nonneg acc \<Longrightarrow> nonneg (capped acc)"
  by (simp add: nonneg_def fst_capped)

lemma nonneg_if: "(c \<Longrightarrow> nonneg a) \<Longrightarrow> (\<not> c \<Longrightarrow> nonneg b) \<Longrightarrow> nonneg (if c then a else b)"
  by simp

lemma nonneg_case_option:
  "(opt = None \<Longrightarrow> nonneg a) \<Longrightarrow> (\<And>v. opt = Some v \<Longrightarrow> nonneg (f v)) \<Longrightarrow>
   nonneg (case opt of None \<Rightarrow> a | Some v \<Rightarrow> f v)"
  by (cases opt) simp_all

lemma nonneg_Let_scoring:
  "nonneg a \<Longrightarrow> (\<And>x. nonneg x \<Longrightarrow> nonneg (f x)) \<Longrightarrow> nonneg (Let a f)"
  by simp

lemma nonneg_Let: "(\<And>x. x = a \<Longrightarrow> nonneg (f x)) \<Longrightarrow> nonneg (Let a f)"
  by simp

lemmas nonneg_rules =
  nonneg_Let_scoring nonneg_Let nonneg_if nonneg_case_option nonneg_capped
  nonneg_add_score nonneg_append_improvement nonneg_append_strength nonneg_start

lemma at_most_100_capped: "at_most_100 (capped acc)"
  by (simp add: at_most_100_def fst_capped)

lemma at_most_100_Let: "(\<And>x. at_most_100 (f x)) \<Longrightarrow> at_most_100 (Let a f)"
  by simp

lemma at_most_100_case_option:
  "at_most_100 a \<Longrightarrow> (\<And>v. at_most_100 (f v)) \<Longrightarrow>
   at_most_100 (case opt of None \<Rightarrow> a | Some v \<Rightarrow> f v)"
  by (cases opt) simp_all

lemma at_most_100_zero: "at_most_100 (0, imps, strs)"
  by (simp add: at_most_100_def)

lemmas at_most_100_rules =
  at_most_100_Let at_most_100_case_option at_most_100_capped at_most_100_zero

lemma status_score_nonneg: "0 \<le> dict_get (map_of status_scores s) 0"
  by (simp add: status_scores_def dict_get_def)

lemma quality_nonneg: "nonneg (calculate_data_quality_score table contracts)"
  unfolding calculate_data_quality_score_def
  by (intro nonneg_rules) simp_all

lemma quality_at_most_100: "at_most_100 (calculate_data_quality_score table contracts)"
  unfolding calculate_data_quality_score_def
  by (intro at_most_100_rules)

lemma contract_nonneg: "nonneg (calculate_contract_availability_score table contracts)"
  unfolding calculate_contract_availability_score_def
  by (intro nonneg_rules) (simp_all add: status_score_nonneg nonneg_def)

lemma contract_at_most_100: "at_most_100 (calculate_contract_availability_score table contracts)"
  unfolding calculate_contract_availability_score_def
  by (intro at_most_100_rules)

lemma freshness_bounds:
  "nonneg (calculate_freshness_score fromtimestamp now table) \<and> at_most_100 (calculate_freshness_score fromtimestamp now table)"
  by (simp add: nonneg_def at_most_100_def calculate_freshness_score_def Let_def
      freshness_by_hours_def split: sum.splits)

lemma documentation_nonneg: "nonneg (calculate_documentation_score table contracts)"
  unfolding calculate_documentation_score_def
  by (intro nonneg_rules) simp_all

lemma documentation_at_most_100: "at_most_100 (calculate_documentation_score table contracts)"
  unfolding calculate_documentation_score_def
  by (intro at_most_100_rules)

lemma lineage_nonneg: "nonneg (calculate_lineage_usage_score table contracts)"
  unfolding calculate_lineage_usage_score_def
  by (intro nonneg_rules) simp_all

lemma lineage_at_most_100: "at_most_100 (calculate_lineage_usage_score table contracts)"
  unfolding calculate_lineage_usage_score_def
  by (intro at_most_100_rules)

lemma security_nonneg: "nonneg (calculate_security_compliance_score table contracts)"
  unfolding calculate_security_compliance_score_def
  by (intro nonneg_rules) simp_all

lemma security_at_most_100: "at_most_100 (calculate_security_compliance_score table contracts)"
  unfolding calculate_security_compliance_score_def
  by (intro at_most_100_rules)

section \<open>The composite score\<close>

lemma composite_unfold:
  "composite_trust_score (calculate_trust_score fromtimestamp now table contracts) =
     fst (calculate_data_quality_score table contracts) * 0.25 +
     fst (calculate_contract_availability_score table contracts) * 0.20 +
     fst (calculate_freshness_score fromtimestamp now table) * 0.15 +
     fst (calculate_documentation_score table contracts) * 0.15 +
     fst (calculate_lineage_usage_score table contracts) * 0.15 +
     fst (calculate_security_compliance_score table contracts) * 0.10"
  by (simp add: calculate_trust_score_def Let_def case_prod_beta WEIGHTS_def)

lemma trust_level_unfold:
  "trust_level (calculate_trust_score fromtimestamp now table contracts) =
     determine_trust_level (composite_trust_score (calculate_trust_score fromtimestamp now table contracts))"
  by (simp add: calculate_trust_score_def Let_def case_prod_beta)

text \<open>
  Claim C1. For every table, contract map and time of assessment, and whatever the
  conversion of timestamps does, the composite trust score that \<open>calculate_trust_score\<close> returns is the weighted sum of the six component
  scores it returns (data quality 0.25, contract availability 0.20, freshness 0.15,
  documentation 0.15, lineage and usage 0.15, security and compliance 0.10), each
  component being the score of its scorer, and the composite lies between 0 and 100.
  Scores are real numbers here; the rounding of floating-point arithmetic is not
  modelled.
\<close>

theorem composite_trust_score_weighted_sum_bounded:
  "composite_trust_score (calculate_trust_score fromtimestamp now table contracts) =
     data_quality_score (calculate_trust_score fromtimestamp now table contracts) * 0.25 +
     contract_availability_score (calculate_trust_score fromtimestamp now table contracts) * 0.20 +
     freshness_score (calculate_trust_score fromtimestamp now table contracts) * 0.15 +
     documentation_score (calculate_trust_score fromtimestamp now table contracts) * 0.15 +
     lineage_usage_score (calculate_trust_score fromtimestamp now table contracts) * 0.15 +
     security_compliance_score (calculate_trust_score fromtimestamp now table contracts) * 0.10
   \<and> data_quality_score (calculate_trust_score fromtimestamp now table contracts) =
       fst (calculate_data_quality_score table contracts)
   \<and> contract_availability_score (calculate_trust_score fromtimestamp now table contracts) =
       fst (calculate_contract_availability_score table contracts)
   \<and> freshness_score (calculate_trust_score fromtimestamp now table contracts) =
       fst (calculate_freshness_score fromtimestamp now table)
   \<and> documentation_score (calculate_trust_score fromtimestamp now table contracts) =
       fst (calculate_documentation_score table contracts)
   \<and> lineage_usage_score (calculate_trust_score fromtimestamp now table contracts) =
       fst (calculate_lineage_usage_score table contracts)
   \<and> security_compliance_score (calculate_trust_score fromtimestamp now table contracts) =
       fst (calculate_security_compliance_score table contracts)
   \<and> 0 \<le> composite_trust_score (calculate_trust_score fromtimestamp now table contracts)
   \<and> composite_trust_score (calculate_trust_score fromtimestamp now table contracts) \<le> 100"
proof -
  let ?r = "calculate_trust_score fromtimestamp now table contracts"
  have fields:
    "data_quality_score ?r = fst (calculate_data_quality_score table contracts)"
    "contract_availability_score ?r = fst (calculate_contract_availability_score table contracts)"
    "freshness_score ?r = fst (calculate_freshness_score fromtimestamp now table)"
    "documentation_score ?r = fst (calculate_documentation_score table contracts)"
    "lineage_usage_score ?r = fst (calculate_lineage_usage_score table contracts)"
    "security_compliance_score ?r = fst (calculate_security_compliance_score table contracts)"
    by (simp_all add: calculate_trust_score_def Let_def case_prod_beta)
  have lo:
    "0 \<le> fst (calculate_data_quality_score table contracts)"
    "0 \<le> fst (calculate_contract_availability_score table contracts)"
    "0 \<le> fst (calculate_freshness_score fromtimestamp now table)"
    "0 \<le> fst (calculate_documentation_score table contracts)"
    "0 \<le> fst (calculate_lineage_usage_score table contracts)"
    "0 \<le> fst (calculate_security_compliance_score table contracts)"
    using quality_nonneg contract_nonneg freshness_bounds documentation_nonneg lineage_nonneg
      security_nonneg
    by (simp_all add: nonneg_def)
  have hi:
    "fst (calculate_data_quality_score table contracts) \<le> 100"
    "fst (calculate_contract_availability_score table contracts) \<le> 100"
    "fst (calculate_freshness_score fromtimestamp now table) \<le> 100"
    "fst (calculate_documentation_score table contracts) \<le> 100"
    "fst (calculate_lineage_usage_score table contracts) \<le> 100"
    "fst (calculate_security_compliance_score table contracts) \<le> 100"
    using quality_at_most_100 contract_at_most_100 freshness_bounds documentation_at_most_100
      lineage_at_most_100 security_at_most_100
    by (simp_all add: at_most_100_def)
  have sum: "composite_trust_score ?r =
     data_quality_score ?r * 0.25 + contract_availability_score ?r * 0.20 +
     freshness_score ?r * 0.15 + documentation_score ?r * 0.15 +
     lineage_usage_score ?r * 0.15 + security_compliance_score ?r * 0.10"
    by (simp only: composite_unfold fields)
  have "0 \<le> composite_trust_score ?r" "composite_trust_score ?r \<le> 100"
    unfolding composite_unfold using lo hi by simp_all
  with sum fields show ?thesis by simp
qed

section \<open>The table that earns every point\<close>

lemma perfect_quality: "fst (calculate_data_quality_score perfect_table perfect_contracts) = 100"
  by (simp add: calculate_data_quality_score_def perfect_table_def perfect_contracts_def
      draft_contract_def get_fqn_def get_columns_def dict_get_def typed_columns_def Let_def
      fst_scoring)

lemma perfect_contract:
  "fst (calculate_contract_availability_score perfect_table perfect_contracts) = 100"
  by (simp add: calculate_contract_availability_score_def perfect_table_def perfect_contracts_def
      draft_contract_def get_fqn_def dict_get_def status_scores_def Let_def fst_scoring)

lemma perfect_freshness: "fst (calculate_freshness_score utc_fromtimestamp assessment_time perfect_table) = 100"
  by (simp add: calculate_freshness_score_def perfect_table_def assessment_time_def
      hours_since_update_def utc_fromtimestamp_def zone_fromtimestamp_def float_overflows_def
      freshness_by_hours_def dict_get_def Let_def)

lemma perfect_documentation:
  "fst (calculate_documentation_score perfect_table perfect_contracts) = 100"
  by (simp add: calculate_documentation_score_def perfect_table_def perfect_contracts_def
      draft_contract_def get_fqn_def get_columns_def get_tags_def get_owner_name_def
      str_truthy_def dict_get_def Let_def fst_scoring)

lemma perfect_lineage:
  "fst (calculate_lineage_usage_score perfect_table perfect_contracts) = 100"
  by (simp add: calculate_lineage_usage_score_def perfect_table_def perfect_contracts_def
      draft_contract_def get_fqn_def dict_get_def Let_def fst_scoring)

lemma pii_tag_found: "py_in ''PII'' (str_tags [\<lparr> tagFQN = Some ''PII'' \<rparr>])"
  by (simp add: str_tags_def str_tag_def py_repr_str_def repr_char_def Let_def)

lemma no_tag_no_pii: "\<not> py_in ''PII'' (str_tags [])"
  by (simp add: str_tags_def)

lemma perfect_security:
  "fst (calculate_security_compliance_score perfect_table perfect_contracts) = 100"
  by (simp add: calculate_security_compliance_score_def perfect_table_def perfect_contracts_def
      draft_contract_def get_fqn_def get_columns_def get_tags_def get_owner_name_def
      str_truthy_def int_truthy_def has_pii_column_def column_has_pii_def
      py_split_def py_lower_def lower_char_def pii_tag_found dict_get_def Let_def fst_scoring)

lemma perfect_composite:
  "composite_trust_score (calculate_trust_score utc_fromtimestamp assessment_time perfect_table perfect_contracts) = 100"
  by (simp add: composite_unfold perfect_quality perfect_contract perfect_freshness
      perfect_documentation perfect_lineage perfect_security)

theorem composite_trust_score_weighted_sum_bounded_witness:
  "composite_trust_score (calculate_trust_score utc_fromtimestamp assessment_time perfect_table perfect_contracts) =
     100 * 0.25 + 100 * 0.20 + 100 * 0.15 + 100 * 0.15 + 100 * 0.15 + 100 * 0.10
   \<and> composite_trust_score (calculate_trust_score utc_fromtimestamp assessment_time perfect_table perfect_contracts)
       \<le> 100"
  using composite_trust_score_weighted_sum_bounded
          [of utc_fromtimestamp assessment_time perfect_table perfect_contracts]
  by (simp add: perfect_quality perfect_contract perfect_freshness perfect_documentation
      perfect_lineage perfect_security)

section \<open>The trust level\<close>

lemma determine_trust_level_cases:
  "determine_trust_level c =
     (if 90 \<le> c \<and> c < 100 then ''Platinum''
      else if 75 \<le> c \<and> c < 90 then ''Gold''
      else if 60 \<le> c \<and> c < 75 then ''Silver''
      else if 40 \<le> c \<and> c < 60 then ''Bronze''
      else ''Needs Attention'')"
  by (simp add: determine_trust_level_def TRUST_LEVELS_def)

text \<open>
  Below 100 the level does not decrease when the composite grows, every composite from 0
  on has a bin, and a composite of exactly 75 is Gold.
\<close>

lemma trust_level_monotone_below_100:
  "a \<le> b \<Longrightarrow> b < 100 \<Longrightarrow>
   level_rank (determine_trust_level a) \<le> level_rank (determine_trust_level b)"
  by (simp add: determine_trust_level_cases level_rank_def)

lemma trust_level_75_is_gold: "determine_trust_level 75 = ''Gold''"
  by (simp add: determine_trust_level_cases)

lemma some_bin_matches_below_100:
  "0 \<le> c \<Longrightarrow> c < 100 \<Longrightarrow>
   list_ex (\<lambda>((min_score, max_score), level). min_score \<le> c \<and> c < max_score) TRUST_LEVELS"
  by (auto simp: TRUST_LEVELS_def)

lemma unowned_quality: "fst (calculate_data_quality_score unowned_table perfect_contracts) = 100"
  by (simp add: calculate_data_quality_score_def unowned_table_def perfect_table_def
      perfect_contracts_def draft_contract_def get_fqn_def get_columns_def dict_get_def
      typed_columns_def Let_def fst_scoring)

lemma unowned_contract:
  "fst (calculate_contract_availability_score unowned_table perfect_contracts) = 100"
  by (simp add: calculate_contract_availability_score_def unowned_table_def perfect_table_def
      perfect_contracts_def draft_contract_def get_fqn_def dict_get_def status_scores_def Let_def
      fst_scoring)

lemma unowned_freshness: "fst (calculate_freshness_score utc_fromtimestamp assessment_time unowned_table) = 100"
  by (simp add: calculate_freshness_score_def unowned_table_def perfect_table_def
      assessment_time_def hours_since_update_def utc_fromtimestamp_def
      zone_fromtimestamp_def float_overflows_def freshness_by_hours_def dict_get_def Let_def)

lemma unowned_documentation:
  "fst (calculate_documentation_score unowned_table perfect_contracts) = 90"
  by (simp add: calculate_documentation_score_def unowned_table_def perfect_table_def
      perfect_contracts_def draft_contract_def get_fqn_def get_columns_def get_tags_def
      get_owner_name_def str_truthy_def dict_get_def Let_def fst_scoring)

lemma unowned_lineage:
  "fst (calculate_lineage_usage_score unowned_table perfect_contracts) = 100"
  by (simp add: calculate_lineage_usage_score_def unowned_table_def perfect_table_def
      perfect_contracts_def draft_contract_def get_fqn_def dict_get_def Let_def fst_scoring)

lemma unowned_security:
  "fst (calculate_security_compliance_score unowned_table perfect_contracts) = 80"
  by (simp add: calculate_security_compliance_score_def unowned_table_def perfect_table_def
      perfect_contracts_def draft_contract_def get_fqn_def get_columns_def get_tags_def
      get_owner_name_def str_truthy_def int_truthy_def has_pii_column_def column_has_pii_def
      py_split_def py_lower_def lower_char_def pii_tag_found dict_get_def Let_def fst_scoring)

lemma unowned_composite:
  "composite_trust_score (calculate_trust_score utc_fromtimestamp assessment_time unowned_table perfect_contracts) =
     96.5"
  by (simp add: composite_unfold unowned_quality unowned_contract unowned_freshness
      unowned_documentation unowned_lineage unowned_security)

text \<open>
  Claim C2. The claim is that the trust level never decreases when the composite score
  grows within [0, 100]. The program breaks it at the top of the range. Assessed at the
  moment of the last update, in a process in the UTC zone, the table without
  an owner has the composite 96.5 and the level Platinum, the same table with an owner has
  the composite 100 and the level Needs Attention, because the bin of Platinum is tested
  with \<^verbatim>\<open>composite < 100\<close> and the level set before the loop stays.
\<close>

theorem trust_level_drops_at_composite_100:
  "composite_trust_score (calculate_trust_score utc_fromtimestamp assessment_time unowned_table perfect_contracts) =
     96.5
   \<and> trust_level (calculate_trust_score utc_fromtimestamp assessment_time unowned_table perfect_contracts) =
       ''Platinum''
   \<and> composite_trust_score (calculate_trust_score utc_fromtimestamp assessment_time perfect_table perfect_contracts) =
       100
   \<and> trust_level (calculate_trust_score utc_fromtimestamp assessment_time perfect_table perfect_contracts) =
       ''Needs Attention''
   \<and> level_rank (trust_level (calculate_trust_score utc_fromtimestamp assessment_time perfect_table perfect_contracts))
       < level_rank
           (trust_level (calculate_trust_score utc_fromtimestamp assessment_time unowned_table perfect_contracts))"
  by (simp add: trust_level_unfold unowned_composite perfect_composite determine_trust_level_cases
      level_rank_def)

text \<open>
  Claim C3. The claim is that some bin matches every composite score in [0, 100], so that
  the level set before the loop is never the result. The program produces the composite
  100 for the table that earns every point (assessed at the moment of its last update, in
  a process in the UTC zone); no bin of \<open>TRUST_LEVELS\<close> contains 100, and the
  level of that table is the one set before the loop, Needs Attention.
\<close>

theorem perfect_score_matches_no_bin:
  "composite_trust_score (calculate_trust_score utc_fromtimestamp assessment_time perfect_table perfect_contracts) =
     100
   \<and> \<not> list_ex (\<lambda>((min_score, max_score), level). min_score \<le> (100::real) \<and> 100 < max_score)
         TRUST_LEVELS
   \<and> trust_level (calculate_trust_score utc_fromtimestamp assessment_time perfect_table perfect_contracts) =
       ''Needs Attention''"
  by (simp add: trust_level_unfold perfect_composite determine_trust_level_cases TRUST_LEVELS_def)

section \<open>The freshness score\<close>

text \<open>
  Claim C10. A table whose \<^verbatim>\<open>updatedAt\<close> entry is present and equal to 0 is scored as a
  table without the entry: the freshness score is 0 with the note
  \<^verbatim>\<open>Enable update timestamp tracking\<close>, and not the 20 of stale data.
\<close>

theorem freshness_epoch_zero_treated_as_absent:
  "updatedAt table = Some (PInt 0) \<Longrightarrow>
   calculate_freshness_score fromtimestamp now table = (0, [''Enable update timestamp tracking''], [])
   \<and> fst (calculate_freshness_score fromtimestamp now table) \<noteq> 20"
  by (simp add: calculate_freshness_score_def dict_get_def)

theorem freshness_epoch_zero_treated_as_absent_witness:
  "updatedAt epoch_table = Some (PInt 0)
   \<and> calculate_freshness_score utc_fromtimestamp assessment_time epoch_table =
       (0, [''Enable update timestamp tracking''], [])"
proof -
  have h: "updatedAt epoch_table = Some (PInt 0)"
    by (simp add: epoch_table_def blank_table_def)
  from freshness_epoch_zero_treated_as_absent [OF h, of utc_fromtimestamp assessment_time] h show ?thesis
    by simp
qed


text \<open>
  The hours that are scored are those between two local times. Across a change of the
  UTC offset they are not the hours elapsed: in New York the table updated at 06:45:00 UTC
  on 2024-03-10 is scored at 07:15:00 UTC, half an hour later, as one hour and a half old,
  with 95 and not 100.
\<close>

lemma freshness_scores_local_hours:
  "updatedAt spring_forward_table = Some (PInt 1710053100000)
   \<and> true_div_1000 (PInt 1710053100000) = Inr 1710053100
   \<and> new_york_fromtimestamp 1710053100 = Inr (1710053100 - 18000)
   \<and> spring_forward_now = 1710054900 - 14400
   \<and> ((1710054900 :: real) - 1710053100) / 3600 = 1 / 2
   \<and> (spring_forward_now - (1710053100 - 18000)) / 3600 = 3 / 2
   \<and> fst (calculate_freshness_score new_york_fromtimestamp spring_forward_now
            spring_forward_table) = 95"
  by (simp add: spring_forward_table_def blank_table_def spring_forward_now_def
      calculate_freshness_score_def dict_get_def hours_since_update_def
      new_york_fromtimestamp_def zone_fromtimestamp_def float_overflows_def
      freshness_by_hours_def)



section \<open>Governance gaps and the type-coverage bonus\<close>

lemma gaps_step_pii:
  "contains_pii_unclassified (gaps_step contracts g t) =
     contains_pii_unclassified g @
       (if py_in ''PII'' (str_tags (get_tags t)) \<and> \<not> dict_has contracts (get_fqn t)
        then [get_fqn t] else [])"
  by (simp add: gaps_step_def Let_def)

lemma gaps_fold_pii:
  "contains_pii_unclassified (foldl (gaps_step contracts) g ts) =
     contains_pii_unclassified g @
       map get_fqn
         (filter (\<lambda>t. py_in ''PII'' (str_tags (get_tags t)) \<and> \<not> dict_has contracts (get_fqn t)) ts)"
  by (induction ts arbitrary: g) (simp_all add: gaps_step_pii)

lemma pii_gap_is_by_table_tags:
  "contains_pii_unclassified (identify_governance_gaps tables contracts) =
     map get_fqn
       (filter (\<lambda>t. py_in ''PII'' (str_tags (get_tags t)) \<and> \<not> dict_has contracts (get_fqn t))
          tables)"
  by (simp add: identify_governance_gaps_def gaps_fold_pii)

text \<open>
  Claim C5. The claim is that the gap set \<^verbatim>\<open>contains_pii_unclassified\<close> holds exactly the
  tables that have a column tagged PII and no contract. The program tests the tags of the
  table, not those of its columns (lemma \<open>pii_gap_is_by_table_tags\<close>): the table below has
  a column tagged PII, as the security scorer finds, and no contract, and it is not in the
  gap set.
\<close>

theorem pii_column_table_missing_from_gap:
  "has_pii_column (get_columns pii_column_table)
   \<and> \<not> dict_has [] (get_fqn pii_column_table)
   \<and> contains_pii_unclassified (identify_governance_gaps [pii_column_table] []) = []"
  by (simp add: pii_gap_is_by_table_tags pii_column_table_def blank_table_def typed_column_def
      bare_column_def get_columns_def get_tags_def get_fqn_def dict_get_def dict_has_def
      has_pii_column_def column_has_pii_def pii_tag_found no_tag_no_pii)

lemma coverage_le_30: "real (length (filter p xs)) / real (length xs) * 30 \<le> 30"
proof (cases "xs = []")
  case True
  then show ?thesis by simp
next
  case False
  have "real (length (filter p xs)) \<le> real (length xs)"
    by simp
  with False have "real (length (filter p xs)) / real (length xs) \<le> 1"
    by (simp add: divide_le_eq_1)
  then have "real (length (filter p xs)) / real (length xs) * 30 \<le> 1 * 30"
    by (rule mult_right_mono) simp
  then show ?thesis by simp
qed

lemma quality_score_formula:
  assumes "get_columns table \<noteq> []"
  shows "fst (calculate_data_quality_score table contracts) =
     20
     + (case map_of contracts (get_fqn table) of
          None \<Rightarrow> 0
        | Some contract \<Rightarrow> if quality_rules contract \<noteq> [] then 30 else 0)
     + 20
     + real (length (typed_columns (get_columns table))) / real (length (get_columns table)) * 30"
proof -
  have le: "real (length (typed_columns (get_columns table))) / real (length (get_columns table)) * 30 \<le> 30"
    unfolding typed_columns_def by (rule coverage_le_30)
  show ?thesis
    using assms le
    by (simp add: calculate_data_quality_score_def Let_def fst_scoring split: option.splits)
qed

lemma typed_columns_spec:
  "\<forall>c \<in> set cols. col_dataType c \<noteq> None \<Longrightarrow> typed_columns cols = filter spec_known_type cols"
  unfolding typed_columns_def
  by (rule filter_cong) (auto simp: spec_known_type_def split: option.splits)

text \<open>
  Claim C8. The claim is that the type-coverage bonus is 30 times the share of the columns
  whose data type is non-empty and not \<^verbatim>\<open>UNKNOWN\<close>. The program counts a column that has
  no \<^verbatim>\<open>dataType\<close> entry at all as typed: the table below has one column, without a data
  type, and its score is 20 + 20 + 30 with no contract, where the claim gives a bonus
  of 0. When every column has a \<^verbatim>\<open>dataType\<close> entry the bonus is the claimed one (lemmas
  \<open>quality_score_formula\<close> and \<open>typed_columns_spec\<close>).
\<close>

theorem untyped_column_counts_as_typed:
  "col_dataType (bare_column ''order_id'') = None
   \<and> get_columns untyped_table = [bare_column ''order_id'']
   \<and> filter spec_known_type (get_columns untyped_table) = []
   \<and> fst (calculate_data_quality_score untyped_table []) = 20 + 20 + 1 / 1 * 30"
  by (simp add: untyped_table_def blank_table_def bare_column_def get_columns_def dict_get_def
      spec_known_type_def calculate_data_quality_score_def get_fqn_def typed_columns_def
      Let_def fst_scoring)

lemma sum_ones_length: "sum_ones p xs = length (filter p xs)"
  unfolding sum_ones_def by (induction xs) simp_all

lemma dict_size_card: "dict_wf d \<Longrightarrow> length d = card (dom (map_of d))"
  unfolding dict_wf_def
  by (metis distinct_card dom_map_of_conv_image_fst length_map list.set_map)

section \<open>Governance metrics and the status of a contract\<close>

lemma str_truthy_iff: "str_truthy e \<longleftrightarrow> (\<exists>s. e = Some s \<and> s \<noteq> [])"
  by (cases e) (simp_all add: str_truthy_def)

lemma is_compliant_iff:
  "is_compliant contracts t \<longleftrightarrow>
     (\<exists>fqn c. fullyQualifiedName t = Some fqn \<and> map_of contracts fqn = Some c \<and>
        status c = ''active'' \<and> classification c \<noteq> [])"
  by (auto simp: is_compliant_def split: option.splits)

lemma is_compliant_fun:
  "is_compliant contracts =
     (\<lambda>t. \<exists>fqn c. fullyQualifiedName t = Some fqn \<and> map_of contracts fqn = Some c \<and>
        status c = ''active'' \<and> classification c \<noteq> [])"
  by (rule ext) (rule is_compliant_iff)

lemma tags_truthy_iff: "dict_get e [] \<noteq> [] \<longleftrightarrow> (\<exists>ts. e = Some ts \<and> ts \<noteq> [])"
  by (cases e) (simp_all add: dict_get_def)

text \<open>
  Claim C9. For every list of tables and every contract map, the metrics \<open>m\<close> that
  \<open>calculate_governance_metrics\<close> returns have: the total equal to the number of tables;
  the owned, documented and classified counts equal to the numbers of tables with a
  non-empty owner name, description and tag list; the contracted count equal to the size
  of the contract map; the compliant count equal to the number of tables whose FQN has a
  contract with status \<^verbatim>\<open>active\<close> and a non-empty classification. Each coverage is the
  count divided by the total times 100, and 0 when there is no table. With no contract
  and ten tables, four owned and three documented, the counts are 10, 4, 3, 0, 0 and the
  ownership coverage is 40.
\<close>

theorem calculate_governance_metrics_counts:
  assumes m: "m = calculate_governance_metrics tables contracts"
  shows
   "total_assets m = length tables
    \<and> owned_assets m = length (filter (\<lambda>t. \<exists>n. get_owner_name t = Some n \<and> n \<noteq> []) tables)
    \<and> documented_assets m = length (filter (\<lambda>t. \<exists>d. tbl_description t = Some d \<and> d \<noteq> []) tables)
    \<and> classified_assets m = length (filter (\<lambda>t. \<exists>ts. tbl_tags t = Some ts \<and> ts \<noteq> []) tables)
    \<and> contracted_assets m = length contracts
    \<and> (dict_wf contracts \<longrightarrow> contracted_assets m = card (dom (map_of contracts)))
    \<and> compliant_assets m =
        length (filter (\<lambda>t. \<exists>fqn c. fullyQualifiedName t = Some fqn \<and>
                  map_of contracts fqn = Some c \<and> status c = ''active'' \<and> classification c \<noteq> [])
                tables)
    \<and> ownership_coverage m =
        (if length tables = 0 then 0 else real (owned_assets m) / real (length tables) * 100)
    \<and> documentation_coverage m =
        (if length tables = 0 then 0 else real (documented_assets m) / real (length tables) * 100)
    \<and> classification_coverage m =
        (if length tables = 0 then 0 else real (classified_assets m) / real (length tables) * 100)
    \<and> contract_coverage m =
        (if length tables = 0 then 0 else real (contracted_assets m) / real (length tables) * 100)
    \<and> compliance_rate m =
        (if length tables = 0 then 0 else real (compliant_assets m) / real (length tables) * 100)
    \<and> (contracts = [] \<and> length tables = 10
        \<and> length (filter (\<lambda>t. \<exists>n. get_owner_name t = Some n \<and> n \<noteq> []) tables) = 4
        \<and> length (filter (\<lambda>t. \<exists>d. tbl_description t = Some d \<and> d \<noteq> []) tables) = 3
        \<longrightarrow> total_assets m = 10 \<and> owned_assets m = 4 \<and> documented_assets m = 3
            \<and> contracted_assets m = 0 \<and> compliant_assets m = 0 \<and> ownership_coverage m = 40)"
proof -
  have total: "total_assets m = length tables"
    by (simp add: m calculate_governance_metrics_def)
  have owned: "owned_assets m =
      length (filter (\<lambda>t. \<exists>n. get_owner_name t = Some n \<and> n \<noteq> []) tables)"
    by (simp add: m calculate_governance_metrics_def sum_ones_length str_truthy_iff)
  have documented: "documented_assets m =
      length (filter (\<lambda>t. \<exists>d. tbl_description t = Some d \<and> d \<noteq> []) tables)"
    by (simp add: m calculate_governance_metrics_def sum_ones_length str_truthy_iff)
  have classified: "classified_assets m =
      length (filter (\<lambda>t. \<exists>ts. tbl_tags t = Some ts \<and> ts \<noteq> []) tables)"
    by (simp add: m calculate_governance_metrics_def sum_ones_length tags_truthy_iff)
  have contracted: "contracted_assets m = length contracts"
    by (simp add: m calculate_governance_metrics_def)
  have compliant: "compliant_assets m =
      length (filter (\<lambda>t. \<exists>fqn c. fullyQualifiedName t = Some fqn \<and>
                map_of contracts fqn = Some c \<and> status c = ''active'' \<and> classification c \<noteq> [])
              tables)"
    by (simp add: m calculate_governance_metrics_def sum_ones_length is_compliant_fun)
  have coverage:
    "ownership_coverage m =
        (if length tables = 0 then 0 else real (owned_assets m) / real (length tables) * 100)"
    "documentation_coverage m =
        (if length tables = 0 then 0 else real (documented_assets m) / real (length tables) * 100)"
    "classification_coverage m =
        (if length tables = 0 then 0 else real (classified_assets m) / real (length tables) * 100)"
    "contract_coverage m =
        (if length tables = 0 then 0 else real (contracted_assets m) / real (length tables) * 100)"
    "compliance_rate m =
        (if length tables = 0 then 0 else real (compliant_assets m) / real (length tables) * 100)"
    by (simp_all add: ownership_coverage_def documentation_coverage_def
        classification_coverage_def contract_coverage_def compliance_rate_def total)
  have card: "dict_wf contracts \<longrightarrow> contracted_assets m = card (dom (map_of contracts))"
    using contracted dict_size_card by auto
  have scenario:
    "contracts = [] \<and> length tables = 10
        \<and> length (filter (\<lambda>t. \<exists>n. get_owner_name t = Some n \<and> n \<noteq> []) tables) = 4
        \<and> length (filter (\<lambda>t. \<exists>d. tbl_description t = Some d \<and> d \<noteq> []) tables) = 3
        \<longrightarrow> total_assets m = 10 \<and> owned_assets m = 4 \<and> documented_assets m = 3
            \<and> contracted_assets m = 0 \<and> compliant_assets m = 0 \<and> ownership_coverage m = 40"
    using total owned documented contracted compliant coverage(1) by simp
  from total owned documented classified contracted card compliant coverage scenario
  show ?thesis by blast
qed

theorem calculate_governance_metrics_counts_witness:
  "calculate_governance_metrics ten_tables [] =
     \<lparr> total_assets = 10, owned_assets = 4, documented_assets = 3, classified_assets = 0,
       contracted_assets = 0, compliant_assets = 0 \<rparr>
   \<and> ownership_coverage (calculate_governance_metrics ten_tables []) = 40"
proof -
  have len: "length ten_tables = 10"
    by (simp add: ten_tables_def)
  have own: "length (filter (\<lambda>t. \<exists>n. get_owner_name t = Some n \<and> n \<noteq> []) ten_tables) = 4"
    by (simp add: ten_tables_def owned_table_def described_table_def blank_table_def
        get_owner_name_def)
  have doc: "length (filter (\<lambda>t. \<exists>d. tbl_description t = Some d \<and> d \<noteq> []) ten_tables) = 3"
    by (simp add: ten_tables_def owned_table_def described_table_def blank_table_def)
  have cls: "length (filter (\<lambda>t. \<exists>ts. tbl_tags t = Some ts \<and> ts \<noteq> []) ten_tables) = 0"
    by (simp add: ten_tables_def owned_table_def described_table_def blank_table_def)
  from calculate_governance_metrics_counts [OF refl, of ten_tables "[]"] len own doc cls
  have "total_assets (calculate_governance_metrics ten_tables []) = 10
      \<and> owned_assets (calculate_governance_metrics ten_tables []) = 4
      \<and> documented_assets (calculate_governance_metrics ten_tables []) = 3
      \<and> classified_assets (calculate_governance_metrics ten_tables []) = 0
      \<and> contracted_assets (calculate_governance_metrics ten_tables []) = 0
      \<and> compliant_assets (calculate_governance_metrics ten_tables []) = 0
      \<and> ownership_coverage (calculate_governance_metrics ten_tables []) = 40"
    by simp
  then show ?thesis
    by (cases "calculate_governance_metrics ten_tables []") simp
qed

text \<open>
  Claim C6. For an FQN without a contract, \<open>update_contract_status\<close> returns false and
  the contract map as it was. For an FQN with the contract \<open>c\<close> it returns true and the map
  in which that FQN holds \<open>c'\<close>, every other key and the order of the keys being unchanged:
  the status of \<open>c'\<close> is the new status, whatever string it is, its time of last
  modification is \<open>now\<close>, its change log is that of \<open>c\<close> with one \<^verbatim>\<open>status_change\<close> entry
  appended, its approval history is that of \<open>c\<close> with one entry appended when the new
  status is \<^verbatim>\<open>active\<close> and that of \<open>c\<close> otherwise, and no other field differs.
\<close>

theorem update_contract_status_effect:
  "(map_of contracts fqn = None \<longrightarrow>
      update_contract_status now contracts fqn new_status user notes = (False, contracts))
   \<and> (\<forall>c. map_of contracts fqn = Some c \<longrightarrow>
        (\<exists>c' entry.
           update_contract_status now contracts fqn new_status user notes =
             (True, AList.update fqn c' contracts)
           \<and> map_of (snd (update_contract_status now contracts fqn new_status user notes)) fqn = Some c'
           \<and> (\<forall>k. k \<noteq> fqn \<longrightarrow>
                 map_of (snd (update_contract_status now contracts fqn new_status user notes)) k =
                 map_of contracts k)
           \<and> map fst (snd (update_contract_status now contracts fqn new_status user notes)) =
               map fst contracts
           \<and> status c' = new_status
           \<and> last_modified c' = now
           \<and> change_log c' = change_log c @ [entry]
           \<and> log_action entry = ''status_change''
           \<and> log_user entry = user
           \<and> log_details entry = status c @ '' '' @ arrow @ '' '' @ new_status
           \<and> log_notes entry = Some notes
           \<and> log_timestamp entry = now
           \<and> (new_status = ''active'' \<longrightarrow>
                 approval_history c' = approval_history c @
                   [\<lparr> appr_timestamp = now, approver = user, appr_notes = notes \<rparr>])
           \<and> (new_status \<noteq> ''active'' \<longrightarrow> approval_history c' = approval_history c)
           \<and> c'\<lparr> status := status c, last_modified := last_modified c,
                  change_log := change_log c, approval_history := approval_history c \<rparr> = c))"
proof (intro conjI allI impI)
  assume "map_of contracts fqn = None"
  then show "update_contract_status now contracts fqn new_status user notes = (False, contracts)"
    by (simp add: update_contract_status_def)
next
  fix c
  assume c: "map_of contracts fqn = Some c"
  then have key: "fqn \<in> fst ` set contracts"
    by (metis domI dom_map_of_conv_image_fst)
  have keys: "map fst (AList.update fqn c' contracts) = map fst contracts" for c'
    using key by (simp add: update_keys)
  show "\<exists>c' entry.
           update_contract_status now contracts fqn new_status user notes =
             (True, AList.update fqn c' contracts)
           \<and> map_of (snd (update_contract_status now contracts fqn new_status user notes)) fqn = Some c'
           \<and> (\<forall>k. k \<noteq> fqn \<longrightarrow>
                 map_of (snd (update_contract_status now contracts fqn new_status user notes)) k =
                 map_of contracts k)
           \<and> map fst (snd (update_contract_status now contracts fqn new_status user notes)) =
               map fst contracts
           \<and> status c' = new_status
           \<and> last_modified c' = now
           \<and> change_log c' = change_log c @ [entry]
           \<and> log_action entry = ''status_change''
           \<and> log_user entry = user
           \<and> log_details entry = status c @ '' '' @ arrow @ '' '' @ new_status
           \<and> log_notes entry = Some notes
           \<and> log_timestamp entry = now
           \<and> (new_status = ''active'' \<longrightarrow>
                 approval_history c' = approval_history c @
                   [\<lparr> appr_timestamp = now, approver = user, appr_notes = notes \<rparr>])
           \<and> (new_status \<noteq> ''active'' \<longrightarrow> approval_history c' = approval_history c)
           \<and> c'\<lparr> status := status c, last_modified := last_modified c,
                  change_log := change_log c, approval_history := approval_history c \<rparr> = c"
    using c keys
    by (cases "new_status = ''active''")
       (simp_all add: update_contract_status_def Let_def update_conv')
qed

section \<open>Schema changes\<close>

lemma columns_by_name_snoc:
  "columns_by_name (cols @ [c]) = AList.update (col_name c) c (columns_by_name cols)"
  by (simp add: columns_by_name_def)

lemma columns_by_name_distinct: "distinct (map fst (columns_by_name cols))"
proof (induction cols rule: rev_induct)
  case Nil
  then show ?case by (simp add: columns_by_name_def)
next
  case (snoc c cols)
  then show ?case by (simp add: columns_by_name_snoc distinct_update)
qed

lemma columns_by_name_keys: "fst ` set (columns_by_name cols) = col_name ` set cols"
proof (induction cols rule: rev_induct)
  case Nil
  then show ?case by (simp add: columns_by_name_def)
next
  case (snoc c cols)
  then show ?case by (simp add: columns_by_name_snoc dom_update)
qed

lemma columns_by_name_lookup:
  "map_of (columns_by_name cols) n =
     (if n \<in> col_name ` set cols then Some (last (filter (\<lambda>c. col_name c = n) cols)) else None)"
proof (induction cols rule: rev_induct)
  case Nil
  then show ?case by (simp add: columns_by_name_def)
next
  case (snoc c cols)
  then show ?case by (auto simp: columns_by_name_snoc update_conv')
qed

lemma dict_has_keys: "dict_has d k \<longleftrightarrow> k \<in> fst ` set d"
  by (simp add: dict_has_def map_of_eq_None_iff)

lemma filter_concat_by_key:
  assumes "distinct (map fst xs)"
    and "\<And>k v ch. (k, v) \<in> set xs \<Longrightarrow> ch \<in> set (g (k, v)) \<Longrightarrow> key ch = k"
  shows "filter (\<lambda>ch. key ch = n) (concat (map g xs)) =
           (case map_of xs n of None \<Rightarrow> [] | Some v \<Rightarrow> g (n, v))"
  using assms
proof (induction xs)
  case Nil
  then show ?case by simp
next
  case (Cons p xs)
  obtain k v where p: "p = (k, v)" by (cases p)
  have ih: "filter (\<lambda>ch. key ch = n) (concat (map g xs)) =
           (case map_of xs n of None \<Rightarrow> [] | Some v \<Rightarrow> g (n, v))"
  proof (rule Cons.IH)
    show "distinct (map fst xs)"
      using Cons.prems(1) by simp
  next
    fix k' v' ch
    assume "(k', v') \<in> set xs" "ch \<in> set (g (k', v'))"
    then show "key ch = k'"
      using Cons.prems(2) by auto
  qed
  have keys: "\<And>ch. ch \<in> set (g (k, v)) \<Longrightarrow> key ch = k"
    using Cons.prems(2) p by auto
  show ?case
  proof (cases "k = n")
    case True
    have "map_of xs n = None"
      using Cons.prems(1) p True by (simp add: map_of_eq_None_iff)
    moreover have "filter (\<lambda>ch. key ch = n) (g (k, v)) = g (k, v)"
      using keys True by (simp add: filter_id_conv)
    ultimately show ?thesis using ih p True by simp
  next
    case False
    have "filter (\<lambda>ch. key ch = n) (g (k, v)) = []"
      using keys False by (auto simp: filter_empty_conv)
    then show ?thesis using ih p False by simp
  qed
qed

lemma distinct_concat_by_key:
  assumes "distinct (map fst xs)"
    and "\<And>k v ch. (k, v) \<in> set xs \<Longrightarrow> ch \<in> set (g (k, v)) \<Longrightarrow> key ch = k"
    and "\<And>p. p \<in> set xs \<Longrightarrow> length (g p) \<le> 1"
  shows "distinct (map key (concat (map g xs)))"
  using assms
proof (induction xs)
  case Nil
  then show ?case by simp
next
  case (Cons p xs)
  obtain k v where p: "p = (k, v)" by (cases p)
  have rest: "distinct (map key (concat (map g xs)))"
  proof (rule Cons.IH)
    show "distinct (map fst xs)"
      using Cons.prems(1) by simp
  next
    fix k' v' ch
    assume "(k', v') \<in> set xs" "ch \<in> set (g (k', v'))"
    then show "key ch = k'"
      using Cons.prems(2) by auto
  next
    fix q
    assume "q \<in> set xs"
    then show "length (g q) \<le> 1"
      using Cons.prems(3) by auto
  qed
  have one: "distinct (map key (g p))"
    using Cons.prems(3) [of p] by (cases "g p") simp_all
  have here: "key ` set (g p) \<subseteq> {k}"
    using Cons.prems(2) p by auto
  have there: "key ` set (concat (map g xs)) \<subseteq> fst ` set xs"
    using Cons.prems(2) by force
  have "k \<notin> fst ` set xs"
    using Cons.prems(1) p by simp
  with here there have "key ` set (g p) \<inter> key ` set (concat (map g xs)) = {}"
    by blast
  with rest one show ?case by simp
qed

lemma removed_changes_filter:
  "distinct (map fst schema) \<Longrightarrow>
   filter (\<lambda>ch. column_name ch = n) (removed_changes now fqn schema cur) =
     (case map_of schema n of
        None \<Rightarrow> []
      | Some d \<Rightarrow>
          if \<not> dict_has cur n
          then [\<lparr> change_table_fqn = fqn, change_type = ''removed'', column_name = n,
                  old_value = Some (sd_dataType d), new_value = None, detected_at = now,
                  severity = ''breaking'', impact_level = ''high'', requires_approval = True \<rparr>]
          else [])"
  unfolding removed_changes_def
  by (subst filter_concat_by_key) (auto split: option.splits if_splits)

lemma added_changes_filter:
  "distinct (map fst cur) \<Longrightarrow>
   filter (\<lambda>ch. column_name ch = n) (added_changes now fqn schema cur) =
     (case map_of cur n of
        None \<Rightarrow> []
      | Some col \<Rightarrow>
          if \<not> dict_has schema n
          then [\<lparr> change_table_fqn = fqn, change_type = ''added'', column_name = n,
                  old_value = None, new_value = Some (dict_get (col_dataType col) ''UNKNOWN''),
                  detected_at = now,
                  severity = ''non-breaking'', impact_level = ''low'', requires_approval = False \<rparr>]
          else [])"
  unfolding added_changes_def
  by (subst filter_concat_by_key) (auto split: option.splits if_splits)

lemma type_changes_filter:
  "distinct (map fst schema) \<Longrightarrow>
   filter (\<lambda>ch. column_name ch = n) (type_changes now fqn schema cur) =
     (case map_of schema n of
        None \<Rightarrow> []
      | Some d \<Rightarrow>
          (case map_of cur n of
             None \<Rightarrow> []
           | Some col \<Rightarrow>
               if sd_dataType d \<noteq> dict_get (col_dataType col) ''UNKNOWN''
               then [\<lparr> change_table_fqn = fqn, change_type = ''type_changed'', column_name = n,
                       old_value = Some (sd_dataType d),
                       new_value = Some (dict_get (col_dataType col) ''UNKNOWN''),
                       detected_at = now,
                       severity = ''breaking'', impact_level = ''high'', requires_approval = True \<rparr>]
               else []))"
  unfolding type_changes_def
  by (subst filter_concat_by_key) (auto simp: Let_def split: option.splits if_splits)

lemma removed_changes_kind:
  "ch \<in> set (removed_changes now fqn schema cur) \<Longrightarrow>
   change_type ch = ''removed'' \<and> severity ch = ''breaking'' \<and>
   column_name ch \<in> fst ` set schema \<and> column_name ch \<notin> fst ` set cur"
  unfolding removed_changes_def by (force simp: dict_has_keys split: if_splits)

lemma added_changes_kind:
  "ch \<in> set (added_changes now fqn schema cur) \<Longrightarrow>
   change_type ch = ''added'' \<and> severity ch = ''non-breaking'' \<and>
   column_name ch \<in> fst ` set cur \<and> column_name ch \<notin> fst ` set schema"
  unfolding added_changes_def by (force simp: dict_has_keys split: if_splits)

lemma map_of_in_keys: "map_of d k = Some v \<Longrightarrow> k \<in> fst ` set d"
  by (metis domI dom_map_of_conv_image_fst)

lemma map_of_in_keys_sym: "Some v = map_of d k \<Longrightarrow> k \<in> fst ` set d"
  by (metis domI dom_map_of_conv_image_fst)

lemma type_changes_kind:
  "ch \<in> set (type_changes now fqn schema cur) \<Longrightarrow>
   change_type ch = ''type_changed'' \<and> severity ch = ''breaking'' \<and>
   column_name ch \<in> fst ` set schema \<and> column_name ch \<in> fst ` set cur"
  unfolding type_changes_def
  by (induction schema)
     (auto simp: Let_def split: if_splits option.splits dest: map_of_in_keys map_of_in_keys_sym)

lemma removed_changes_distinct:
  "distinct (map fst schema) \<Longrightarrow> distinct (map column_name (removed_changes now fqn schema cur))"
  unfolding removed_changes_def
  by (rule distinct_concat_by_key) (auto split: if_splits)

lemma added_changes_distinct:
  "distinct (map fst cur) \<Longrightarrow> distinct (map column_name (added_changes now fqn schema cur))"
  unfolding added_changes_def
  by (rule distinct_concat_by_key) (auto split: if_splits)

lemma type_changes_distinct:
  "distinct (map fst schema) \<Longrightarrow> distinct (map column_name (type_changes now fqn schema cur))"
  unfolding type_changes_def
  by (rule distinct_concat_by_key) (auto simp: Let_def split: if_splits option.splits)

lemma three_way_disjoint:
  "R \<subseteq> S - C \<Longrightarrow> A \<subseteq> C - S \<Longrightarrow> T \<subseteq> S \<inter> C \<Longrightarrow>
   R \<inter> A = {} \<and> R \<inter> T = {} \<and> A \<inter> T = {}"
  by blast

lemma three_way_union:
  "R \<subseteq> S - C \<Longrightarrow> A \<subseteq> C - S \<Longrightarrow> T \<subseteq> S \<inter> C \<Longrightarrow> C = N \<Longrightarrow>
   R \<union> (A \<union> T) \<subseteq> S \<union> N"
  by blast

text \<open>
  Claim C4. For a contract whose recorded schema is a dictionary (its keys are distinct)
  and any list of current columns, the changes that \<open>detect_schema_changes\<close> emits are
  the removals, then the additions, then the type changes; no column name occurs in two
  changes, and every change is about a name of the contract or of the table. A name in
  the contract only has exactly one change, a removal (breaking); a name in the table only
  has exactly one change, an addition (non-breaking); a name in both has exactly one
  change, a type change (breaking), when the recorded type differs from the current type
  as a string, and no change when they are equal. The current type of a name is the
  \<^verbatim>\<open>dataType\<close> of the last column of that name, \<^verbatim>\<open>UNKNOWN\<close> when it has none.
\<close>

theorem detect_schema_changes_classifies:
  assumes contract: "map_of contracts fqn = Some contract"
    and wf: "dict_wf (schema_definition contract)"
  shows
   "(\<exists>removed added changed.
        detect_schema_changes now contracts fqn table = removed @ added @ changed
        \<and> (\<forall>ch \<in> set removed. change_type ch = ''removed'' \<and> severity ch = ''breaking'')
        \<and> (\<forall>ch \<in> set added. change_type ch = ''added'' \<and> severity ch = ''non-breaking'')
        \<and> (\<forall>ch \<in> set changed. change_type ch = ''type_changed'' \<and> severity ch = ''breaking''))
    \<and> distinct (map column_name (detect_schema_changes now contracts fqn table))
    \<and> column_name ` set (detect_schema_changes now contracts fqn table)
        \<subseteq> fst ` set (schema_definition contract) \<union> col_name ` set (get_columns table)
    \<and> (\<forall>n d. map_of (schema_definition contract) n = Some d
              \<and> n \<notin> col_name ` set (get_columns table) \<longrightarrow>
          filter (\<lambda>ch. column_name ch = n) (detect_schema_changes now contracts fqn table) =
            [\<lparr> change_table_fqn = fqn, change_type = ''removed'', column_name = n,
               old_value = Some (sd_dataType d), new_value = None, detected_at = now,
               severity = ''breaking'', impact_level = ''high'', requires_approval = True \<rparr>])
    \<and> (\<forall>n. map_of (schema_definition contract) n = None
              \<and> n \<in> col_name ` set (get_columns table) \<longrightarrow>
          filter (\<lambda>ch. column_name ch = n) (detect_schema_changes now contracts fqn table) =
            [\<lparr> change_table_fqn = fqn, change_type = ''added'', column_name = n,
               old_value = None, new_value = Some (current_dataType (get_columns table) n),
               detected_at = now,
               severity = ''non-breaking'', impact_level = ''low'', requires_approval = False \<rparr>])
    \<and> (\<forall>n d. map_of (schema_definition contract) n = Some d
              \<and> n \<in> col_name ` set (get_columns table)
              \<and> sd_dataType d \<noteq> current_dataType (get_columns table) n \<longrightarrow>
          filter (\<lambda>ch. column_name ch = n) (detect_schema_changes now contracts fqn table) =
            [\<lparr> change_table_fqn = fqn, change_type = ''type_changed'', column_name = n,
               old_value = Some (sd_dataType d),
               new_value = Some (current_dataType (get_columns table) n), detected_at = now,
               severity = ''breaking'', impact_level = ''high'', requires_approval = True \<rparr>])
    \<and> (\<forall>n d. map_of (schema_definition contract) n = Some d
              \<and> n \<in> col_name ` set (get_columns table)
              \<and> sd_dataType d = current_dataType (get_columns table) n \<longrightarrow>
          filter (\<lambda>ch. column_name ch = n) (detect_schema_changes now contracts fqn table) = [])"
proof -
  let ?schema = "schema_definition contract"
  let ?cols = "get_columns table"
  let ?cur = "columns_by_name ?cols"
  let ?R = "removed_changes now fqn ?schema ?cur"
  let ?A = "added_changes now fqn ?schema ?cur"
  let ?T = "type_changes now fqn ?schema ?cur"
  have eq: "detect_schema_changes now contracts fqn table = ?R @ ?A @ ?T"
    by (simp add: detect_schema_changes_def contract Let_def)
  have ds: "distinct (map fst ?schema)"
    using wf by (simp add: dict_wf_def)
  have dc: "distinct (map fst ?cur)"
    by (rule columns_by_name_distinct)
  have keys: "fst ` set ?cur = col_name ` set ?cols"
    by (rule columns_by_name_keys)
  have order: "\<exists>removed added changed.
        detect_schema_changes now contracts fqn table = removed @ added @ changed
        \<and> (\<forall>ch \<in> set removed. change_type ch = ''removed'' \<and> severity ch = ''breaking'')
        \<and> (\<forall>ch \<in> set added. change_type ch = ''added'' \<and> severity ch = ''non-breaking'')
        \<and> (\<forall>ch \<in> set changed. change_type ch = ''type_changed'' \<and> severity ch = ''breaking'')"
  proof (intro exI conjI ballI)
    show "detect_schema_changes now contracts fqn table = ?R @ ?A @ ?T"
      by (rule eq)
  next
    fix ch assume "ch \<in> set ?R"
    then show "change_type ch = ''removed''" "severity ch = ''breaking''"
      by (simp_all only: removed_changes_kind)
  next
    fix ch assume "ch \<in> set ?A"
    then show "change_type ch = ''added''" "severity ch = ''non-breaking''"
      by (simp_all only: added_changes_kind)
  next
    fix ch assume "ch \<in> set ?T"
    then show "change_type ch = ''type_changed''" "severity ch = ''breaking''"
      by (simp_all only: type_changes_kind)
  qed
  have rn: "column_name ` set ?R \<subseteq> fst ` set ?schema - fst ` set ?cur"
    using removed_changes_kind [of _ now fqn ?schema ?cur] by fast
  have an: "column_name ` set ?A \<subseteq> fst ` set ?cur - fst ` set ?schema"
    using added_changes_kind [of _ now fqn ?schema ?cur] by fast
  have tn: "column_name ` set ?T \<subseteq> fst ` set ?schema \<inter> fst ` set ?cur"
    using type_changes_kind [of _ now fqn ?schema ?cur] by fast
  have disjoint:
    "column_name ` set ?R \<inter> column_name ` set ?A = {}"
    "column_name ` set ?R \<inter> column_name ` set ?T = {}"
    "column_name ` set ?A \<inter> column_name ` set ?T = {}"
    using three_way_disjoint [OF rn an tn] by simp_all
  have dist: "distinct (map column_name (detect_schema_changes now contracts fqn table))"
    using removed_changes_distinct [OF ds, of now fqn ?cur]
      added_changes_distinct [OF dc, of now fqn ?schema]
      type_changes_distinct [OF ds, of now fqn ?cur] disjoint
    by (simp add: eq Int_Un_distrib Int_Un_distrib2)
  have sub: "column_name ` set (detect_schema_changes now contracts fqn table)
        \<subseteq> fst ` set ?schema \<union> col_name ` set ?cols"
    using three_way_union [OF rn an tn keys] by (simp add: eq image_Un)
  have flt: "filter (\<lambda>ch. column_name ch = n) (detect_schema_changes now contracts fqn table) =
      filter (\<lambda>ch. column_name ch = n) ?R @ filter (\<lambda>ch. column_name ch = n) ?A @
      filter (\<lambda>ch. column_name ch = n) ?T" for n
    by (simp add: eq)
  have absent: "map_of ?cur n = None \<and> \<not> dict_has ?cur n" if "n \<notin> col_name ` set ?cols" for n
    using that by (simp add: columns_by_name_lookup dict_has_def)
  have present: "map_of ?cur n = Some (last (filter (\<lambda>c. col_name c = n) ?cols)) \<and> dict_has ?cur n"
    if "n \<in> col_name ` set ?cols" for n
    using that by (simp add: columns_by_name_lookup dict_has_def)
  have removed: "filter (\<lambda>ch. column_name ch = n) (detect_schema_changes now contracts fqn table) =
            [\<lparr> change_table_fqn = fqn, change_type = ''removed'', column_name = n,
               old_value = Some (sd_dataType d), new_value = None, detected_at = now,
               severity = ''breaking'', impact_level = ''high'', requires_approval = True \<rparr>]"
    if "map_of ?schema n = Some d \<and> n \<notin> col_name ` set ?cols" for n d
    using that absent [of n]
    by (simp add: flt removed_changes_filter [OF ds] added_changes_filter [OF dc]
        type_changes_filter [OF ds])
  have added: "filter (\<lambda>ch. column_name ch = n) (detect_schema_changes now contracts fqn table) =
            [\<lparr> change_table_fqn = fqn, change_type = ''added'', column_name = n,
               old_value = None, new_value = Some (current_dataType ?cols n),
               detected_at = now,
               severity = ''non-breaking'', impact_level = ''low'', requires_approval = False \<rparr>]"
    if "map_of ?schema n = None \<and> n \<in> col_name ` set ?cols" for n
    using that present [of n]
    by (simp add: flt removed_changes_filter [OF ds] added_changes_filter [OF dc]
        type_changes_filter [OF ds] dict_has_def current_dataType_def)
  have changed: "filter (\<lambda>ch. column_name ch = n) (detect_schema_changes now contracts fqn table) =
            [\<lparr> change_table_fqn = fqn, change_type = ''type_changed'', column_name = n,
               old_value = Some (sd_dataType d),
               new_value = Some (current_dataType ?cols n), detected_at = now,
               severity = ''breaking'', impact_level = ''high'', requires_approval = True \<rparr>]"
    if "map_of ?schema n = Some d \<and> n \<in> col_name ` set ?cols
        \<and> sd_dataType d \<noteq> current_dataType ?cols n" for n d
    using that present [of n]
    by (simp add: flt removed_changes_filter [OF ds] added_changes_filter [OF dc]
        type_changes_filter [OF ds] dict_has_def current_dataType_def)
  have unchanged: "filter (\<lambda>ch. column_name ch = n) (detect_schema_changes now contracts fqn table) = []"
    if "map_of ?schema n = Some d \<and> n \<in> col_name ` set ?cols
        \<and> sd_dataType d = current_dataType ?cols n" for n d
    using that present [of n]
    by (simp add: flt removed_changes_filter [OF ds] added_changes_filter [OF dc]
        type_changes_filter [OF ds] dict_has_def current_dataType_def)
  show ?thesis
    apply (intro conjI allI impI)
    apply (rule order)
    apply (rule dist)
    apply (rule sub)
    apply (erule removed)
    apply (erule added)
    apply (erule changed)
    apply (erule unchanged)
    done
qed

theorem detect_schema_changes_classifies_witness:
  "map_of orders_contracts ''Deliver.raw.orders'' =
     Some (draft_contract ''Deliver.raw.orders''
             [(''order_id'', column_def ''INT''), (''status'', column_def ''VARCHAR''),
              (''legacy'', column_def ''TEXT'')])
   \<and> dict_wf [(''order_id'', column_def ''INT''), (''status'', column_def ''VARCHAR''),
               (''legacy'', column_def ''TEXT'')]
   \<and> distinct (map column_name
        (detect_schema_changes assessment_time orders_contracts ''Deliver.raw.orders'' orders_table))
   \<and> filter (\<lambda>ch. column_name ch = ''legacy'')
        (detect_schema_changes assessment_time orders_contracts ''Deliver.raw.orders'' orders_table) =
       [\<lparr> change_table_fqn = ''Deliver.raw.orders'', change_type = ''removed'',
          column_name = ''legacy'', old_value = Some ''TEXT'', new_value = None,
          detected_at = assessment_time, severity = ''breaking'', impact_level = ''high'',
          requires_approval = True \<rparr>]
   \<and> filter (\<lambda>ch. column_name ch = ''amount'')
        (detect_schema_changes assessment_time orders_contracts ''Deliver.raw.orders'' orders_table) =
       [\<lparr> change_table_fqn = ''Deliver.raw.orders'', change_type = ''added'',
          column_name = ''amount'', old_value = None, new_value = Some ''DECIMAL'',
          detected_at = assessment_time, severity = ''non-breaking'', impact_level = ''low'',
          requires_approval = False \<rparr>]
   \<and> filter (\<lambda>ch. column_name ch = ''status'')
        (detect_schema_changes assessment_time orders_contracts ''Deliver.raw.orders'' orders_table) =
       [\<lparr> change_table_fqn = ''Deliver.raw.orders'', change_type = ''type_changed'',
          column_name = ''status'', old_value = Some ''VARCHAR'', new_value = Some ''INT'',
          detected_at = assessment_time, severity = ''breaking'', impact_level = ''high'',
          requires_approval = True \<rparr>]
   \<and> filter (\<lambda>ch. column_name ch = ''order_id'')
        (detect_schema_changes assessment_time orders_contracts ''Deliver.raw.orders'' orders_table) = []"
proof -
  let ?schema = "[(''order_id'', column_def ''INT''), (''status'', column_def ''VARCHAR''),
                  (''legacy'', column_def ''TEXT'')]"
  let ?c = "draft_contract ''Deliver.raw.orders'' ?schema"
  have h1: "map_of orders_contracts ''Deliver.raw.orders'' = Some ?c"
    by (simp add: orders_contracts_def)
  have sd: "schema_definition ?c = ?schema"
    by (simp add: draft_contract_def)
  have h2: "dict_wf (schema_definition ?c)"
    by (simp add: sd dict_wf_def)
  have cols: "get_columns orders_table =
      [typed_column ''order_id'' ''INT'', typed_column ''status'' ''INT'',
       typed_column ''amount'' ''DECIMAL'']"
    by (simp add: orders_table_def blank_table_def get_columns_def dict_get_def)
  have names: "col_name ` set (get_columns orders_table) = {''order_id'', ''status'', ''amount''}"
    by (simp add: cols typed_column_def bare_column_def)
  have types:
    "current_dataType (get_columns orders_table) ''amount'' = ''DECIMAL''"
    "current_dataType (get_columns orders_table) ''status'' = ''INT''"
    "current_dataType (get_columns orders_table) ''order_id'' = ''INT''"
    by (simp_all add: cols current_dataType_def typed_column_def bare_column_def dict_get_def)
  have recorded:
    "map_of (schema_definition ?c) ''legacy'' = Some (column_def ''TEXT'')"
    "map_of (schema_definition ?c) ''amount'' = None"
    "map_of (schema_definition ?c) ''status'' = Some (column_def ''VARCHAR'')"
    "map_of (schema_definition ?c) ''order_id'' = Some (column_def ''INT'')"
    by (simp_all add: sd)
  have sdt: "sd_dataType (column_def ty) = ty" for ty
    by (simp add: column_def_def)
  note cls = detect_schema_changes_classifies [OF h1 h2, of assessment_time orders_table]
  note dist = cls [THEN conjunct2, THEN conjunct1]
  note removed = cls [THEN conjunct2, THEN conjunct2, THEN conjunct2, THEN conjunct1, rule_format]
  note added = cls [THEN conjunct2, THEN conjunct2, THEN conjunct2, THEN conjunct2,
      THEN conjunct1, rule_format]
  note changed = cls [THEN conjunct2, THEN conjunct2, THEN conjunct2, THEN conjunct2,
      THEN conjunct2, THEN conjunct1, rule_format]
  note unchanged = cls [THEN conjunct2, THEN conjunct2, THEN conjunct2, THEN conjunct2,
      THEN conjunct2, THEN conjunct2, rule_format]
  have r: "filter (\<lambda>ch. column_name ch = ''legacy'')
        (detect_schema_changes assessment_time orders_contracts ''Deliver.raw.orders'' orders_table) =
       [\<lparr> change_table_fqn = ''Deliver.raw.orders'', change_type = ''removed'',
          column_name = ''legacy'', old_value = Some ''TEXT'', new_value = None,
          detected_at = assessment_time, severity = ''breaking'', impact_level = ''high'',
          requires_approval = True \<rparr>]"
    using removed [of "''legacy''" "column_def ''TEXT''"] recorded(1) names by (simp add: sdt)
  have a: "filter (\<lambda>ch. column_name ch = ''amount'')
        (detect_schema_changes assessment_time orders_contracts ''Deliver.raw.orders'' orders_table) =
       [\<lparr> change_table_fqn = ''Deliver.raw.orders'', change_type = ''added'',
          column_name = ''amount'', old_value = None, new_value = Some ''DECIMAL'',
          detected_at = assessment_time, severity = ''non-breaking'', impact_level = ''low'',
          requires_approval = False \<rparr>]"
    using added [of "''amount''"] recorded(2) names by (simp add: types)
  have t: "filter (\<lambda>ch. column_name ch = ''status'')
        (detect_schema_changes assessment_time orders_contracts ''Deliver.raw.orders'' orders_table) =
       [\<lparr> change_table_fqn = ''Deliver.raw.orders'', change_type = ''type_changed'',
          column_name = ''status'', old_value = Some ''VARCHAR'', new_value = Some ''INT'',
          detected_at = assessment_time, severity = ''breaking'', impact_level = ''high'',
          requires_approval = True \<rparr>]"
    using changed [of "''status''" "column_def ''VARCHAR''"] recorded(3) names
    by (simp add: types sdt)
  have u: "filter (\<lambda>ch. column_name ch = ''order_id'')
        (detect_schema_changes assessment_time orders_contracts ''Deliver.raw.orders'' orders_table) = []"
    using unchanged [of "''order_id''" "column_def ''INT''"] recorded(4) names
    by (simp add: types sdt)
  from h1 h2 dist r a t u show ?thesis
    by (simp add: sd)
qed

theorem update_contract_status_effect_witness:
  "map_of orders_contracts ''Plan.raw.missing'' = None
   \<and> update_contract_status assessment_time orders_contracts ''Plan.raw.missing'' ''active''
        ''carol.analytics'' ''Approved for production'' = (False, orders_contracts)
   \<and> (\<exists>c. map_of orders_contracts ''Deliver.raw.orders'' = Some c \<and> status c = ''draft''
          \<and> length (approval_history c) = 0 \<and> length (change_log c) = 1)
   \<and> fst (update_contract_status assessment_time orders_contracts ''Deliver.raw.orders'' ''active''
            ''carol.analytics'' ''Approved for production'') = True
   \<and> (\<exists>c'. map_of (snd (update_contract_status assessment_time orders_contracts
                  ''Deliver.raw.orders'' ''active'' ''carol.analytics'' ''Approved for production''))
              ''Deliver.raw.orders'' = Some c'
          \<and> status c' = ''active'' \<and> last_modified c' = assessment_time
          \<and> length (change_log c') = 2 \<and> length (approval_history c') = 1)
   \<and> (\<exists>c'. map_of (snd (update_contract_status assessment_time orders_contracts
                  ''Deliver.raw.orders'' ''archived'' ''carol.analytics'' []))
              ''Deliver.raw.orders'' = Some c'
          \<and> status c' = ''archived'' \<and> length (change_log c') = 2
          \<and> length (approval_history c') = 0)"
proof -
  let ?c = "draft_contract ''Deliver.raw.orders''
             [(''order_id'', column_def ''INT''), (''status'', column_def ''VARCHAR''),
              (''legacy'', column_def ''TEXT'')]"
  have none: "map_of orders_contracts ''Plan.raw.missing'' = None"
    by (simp add: orders_contracts_def)
  have some: "map_of orders_contracts ''Deliver.raw.orders'' = Some ?c"
    by (simp add: orders_contracts_def)
  have c: "status ?c = ''draft'' \<and> length (approval_history ?c) = 0 \<and> length (change_log ?c) = 1"
    by (simp add: draft_contract_def)
  note absent = update_contract_status_effect
      [of orders_contracts "''Plan.raw.missing''" assessment_time "''active''" "''carol.analytics''"
        "''Approved for production''", THEN conjunct1, rule_format, OF none]
  note act = update_contract_status_effect
      [of orders_contracts "''Deliver.raw.orders''" assessment_time "''active''" "''carol.analytics''"
        "''Approved for production''", THEN conjunct2, rule_format, OF some]
  note arch = update_contract_status_effect
      [of orders_contracts "''Deliver.raw.orders''" assessment_time "''archived''" "''carol.analytics''"
        "[]", THEN conjunct2, rule_format, OF some]
  from act c have p1: "fst (update_contract_status assessment_time orders_contracts ''Deliver.raw.orders'' ''active''
            ''carol.analytics'' ''Approved for production'') = True
     \<and> (\<exists>c'. map_of (snd (update_contract_status assessment_time orders_contracts
                  ''Deliver.raw.orders'' ''active'' ''carol.analytics'' ''Approved for production''))
              ''Deliver.raw.orders'' = Some c'
          \<and> status c' = ''active'' \<and> last_modified c' = assessment_time
          \<and> length (change_log c') = 2 \<and> length (approval_history c') = 1)"
    by (elim exE conjE) simp
  from arch c have p2: "\<exists>c'. map_of (snd (update_contract_status assessment_time orders_contracts
                  ''Deliver.raw.orders'' ''archived'' ''carol.analytics'' []))
              ''Deliver.raw.orders'' = Some c'
          \<and> status c' = ''archived'' \<and> length (change_log c') = 2
          \<and> length (approval_history c') = 0"
    by (elim exE conjE) simp
  from none absent some c p1 p2 show ?thesis
    by blast
qed

end
